theory Spec2Isabelle
  imports Complex_Main "HOL-Library.Multiset" "HOL-Library.Product_Lexorder"
begin

unbundle bit_operations_syntax

section \<open>Python values, exceptions and sequences\<close>

text \<open>
  The model of \<^verbatim>\<open>tables.py\<close>.  A Python float is modelled by the \<^typ>\<open>real\<close> it denotes
  (NaN and the infinities are outside the model): comparison, negation, \<^verbatim>\<open>is_integer\<close>
  and \<^verbatim>\<open>int\<close> of an integral float are exact on doubles.  Addition of floats rounds;
  it is a parameter \<open>float_add\<close> of the functions that add, and nothing is assumed of it.
  Python's unbounded integers are \<^typ>\<open>int\<close>.  Values that reach a row constructor
  untyped are \<open>pyval\<close>s.
\<close>

datatype pyval =
    PInt int
  | PBool bool
  | PFloat real
  | PStr string
  | PNone
  | PTuple "pyval list"

text \<open>The classes used as field annotations of the row dataclasses.\<close>

datatype pytype = Tint | Tfloat | Ttuple

text \<open>
  Exceptions, one constructor per raise site kind.  Python classes:
  \<open>FieldTypeError\<close>, \<open>NotIntegerError\<close>, \<open>OrderingError\<close> and \<open>ReferenceError\<close> are
  \<^verbatim>\<open>ValueError\<close>s with the message of \<^verbatim>\<open>_validate\<close>, \<^verbatim>\<open>_check_int\<close> and
  \<^verbatim>\<open>add_iedge_row\<close>; \<open>ConversionError\<close> is the \<^verbatim>\<open>TypeError\<close> of \<^verbatim>\<open>_check_int\<close>;
  \<open>TypeError\<close> is any other \<^verbatim>\<open>TypeError\<close> of the interpreter (a call whose arguments
  do not bind, an unsupported operand, a list index that is not an integer);
  \<open>AttributeError\<close> is both the interpreter's failed attribute lookup and the one
  \<^verbatim>\<open>__setattr__\<close> raises on a frozen instance.
\<close>

datatype error =
    FieldTypeError string pytype pyval
  | NotIntegerError "string option" pyval
  | ConversionError "string option" pyval
  | OrderingError
  | ReferenceError
  | TypeError
  | AttributeError
  | IndexError
  | KeyError
  | NotImplementedError

text \<open>
  \<^verbatim>\<open>self._data\<close> is a list while the table is mutable and a tuple once it is frozen;
  a tuple has no \<^verbatim>\<open>append\<close>.
\<close>

datatype 'r pyseq = PyList "'r list" | PyTuple "'r list"

fun items :: "'r pyseq \<Rightarrow> 'r list" where
  "items (PyList xs) = xs"
| "items (PyTuple xs) = xs"

text \<open>Indexing a list or tuple: negative indices count from the end, out of range raises.\<close>

definition py_getitem :: "'a list \<Rightarrow> int \<Rightarrow> error + 'a" where
  "py_getitem xs i =
     (if 0 \<le> i \<and> i < int (length xs) then Inr (xs ! nat i)
      else if i < 0 \<and> - int (length xs) \<le> i then Inr (xs ! nat (int (length xs) + i))
      else Inl IndexError)"

text \<open>A dict with string keys, in insertion order: assignment keeps the place of a key.\<close>

type_synonym pydict = "(string \<times> pyval) list"

fun dict_set :: "pydict \<Rightarrow> string \<Rightarrow> pyval \<Rightarrow> pydict" where
  "dict_set [] k v = [(k, v)]"
| "dict_set ((k', v') # d) k v = (if k' = k then (k, v) # d else (k', v') # dict_set d k v)"

definition dict_update :: "pydict \<Rightarrow> pydict \<Rightarrow> pydict" where
  "dict_update d e = fold (\<lambda>(k, v) acc. dict_set acc k v) e d"

text \<open>Running a fallible function over a list, stopping at the first exception.\<close>

fun map_err :: "('a \<Rightarrow> error + 'b) \<Rightarrow> 'a list \<Rightarrow> error + 'b list" where
  "map_err f [] = Inr []"
| "map_err f (x # xs) =
     (case f x of
        Inl e \<Rightarrow> Inl e
      | Inr y \<Rightarrow> (case map_err f xs of Inl e \<Rightarrow> Inl e | Inr ys \<Rightarrow> Inr (y # ys)))"

section \<open>Constants of the package\<close>

text \<open>
  \<^verbatim>\<open>constants.py\<close> is imported by \<^verbatim>\<open>tables.py\<close> and its values are not part of the
  module; they are parameters of the model.
\<close>

record constants =
  NULL :: int
  VALID_GIG :: int
  IEDGES_PARENT_OLDER_THAN_CHILD :: int

section \<open>Row records\<close>

subsection \<open>The dataclasses as declared\<close>

record IEdgeTableRow =
  child_left :: int
  child_right :: int
  parent_left :: int
  parent_right :: int
  child :: int
  parent :: int
  edge :: int
  child_chromosome :: int
  parent_chromosome :: int

text \<open>The field \<^verbatim>\<open>flags\<close> of a node row is \<open>node_flags\<close> here; \<open>flags\<close> is the edge table's.\<close>

record NodeTableRow =
  time :: real
  node_flags :: int
  individual :: int

record IndividualTableRow =
  parents :: "int list"

subsection \<open>Construction from untyped arguments\<close>

text \<open>
  A dataclass is described by its fields in declaration order (name, annotated type,
  default, keyword-only) and by \<^verbatim>\<open>__annotations__\<close>, which for the edge row also holds
  the \<^verbatim>\<open>KW_ONLY\<close> marker \<^verbatim>\<open>_\<close>.  A constructed row is the list of its field values in
  field order (what \<^verbatim>\<open>asdict\<close> returns).
\<close>

record field =
  fname :: string
  ftype :: pytype
  fdefault :: "pyval option"
  kw_only :: bool

record RowClass =
  dc_fields :: "field list"
  annotations :: "string list"

type_synonym pyrow = pydict

definition mk_field :: "string \<Rightarrow> pytype \<Rightarrow> pyval option \<Rightarrow> bool \<Rightarrow> field" where
  "mk_field n t d k = \<lparr>fname = n, ftype = t, fdefault = d, kw_only = k\<rparr>"

definition IEdgeTableRow_class :: "constants \<Rightarrow> RowClass" where
  "IEdgeTableRow_class K =
     \<lparr>dc_fields =
        [mk_field ''child_left'' Tint None False,
         mk_field ''child_right'' Tint None False,
         mk_field ''parent_left'' Tint None False,
         mk_field ''parent_right'' Tint None False,
         mk_field ''child'' Tint None True,
         mk_field ''parent'' Tint None True,
         mk_field ''edge'' Tint (Some (PInt (NULL K))) True,
         mk_field ''child_chromosome'' Tint (Some (PInt (NULL K))) True,
         mk_field ''parent_chromosome'' Tint (Some (PInt (NULL K))) True],
      annotations =
        [''child_left'', ''child_right'', ''parent_left'', ''parent_right'', ''_'',
         ''child'', ''parent'', ''edge'', ''child_chromosome'', ''parent_chromosome'']\<rparr>"

definition NodeTableRow_class :: "constants \<Rightarrow> RowClass" where
  "NodeTableRow_class K =
     \<lparr>dc_fields =
        [mk_field ''time'' Tfloat None False,
         mk_field ''flags'' Tint (Some (PInt 0)) False,
         mk_field ''individual'' Tint (Some (PInt (NULL K))) False],
      annotations = [''time'', ''flags'', ''individual'']\<rparr>"

definition IndividualTableRow_class :: RowClass where
  "IndividualTableRow_class =
     \<lparr>dc_fields = [mk_field ''parents'' Ttuple (Some (PTuple [])) False],
      annotations = [''parents'']\<rparr>"

text \<open>
  The generated \<^verbatim>\<open>__init__\<close>: positional arguments fill the fields that are not
  keyword-only, in order; a keyword must name a field not already filled; every field
  without a default must be given.  Anything else is the interpreter's \<^verbatim>\<open>TypeError\<close>.
  No field value is inspected.
\<close>

definition bind_positional :: "field list \<Rightarrow> pyval list \<Rightarrow> error + pydict" where
  "bind_positional fs args =
     (let pos = filter (\<lambda>f. \<not> kw_only f) fs
      in if length pos < length args then Inl TypeError
         else Inr (zip (map fname pos) args))"

definition field_value :: "pydict \<Rightarrow> field \<Rightarrow> pyval option" where
  "field_value given f =
     (case map_of given (fname f) of Some v \<Rightarrow> Some v | None \<Rightarrow> fdefault f)"

definition RowClass_init :: "RowClass \<Rightarrow> pyval list \<Rightarrow> pydict \<Rightarrow> error + pyrow" where
  "RowClass_init rc args kwargs =
     (case bind_positional (dc_fields rc) args of
        Inl e \<Rightarrow> Inl e
      | Inr bound \<Rightarrow>
          if list_ex (\<lambda>k. if k \<in> set (map fname (dc_fields rc)) then k \<in> set (map fst bound) else True)
               (map fst kwargs)
          then Inl TypeError
          else (let vals = map (field_value (bound @ kwargs)) (dc_fields rc)
                in if list_ex (\<lambda>v. v = None) vals then Inl TypeError
                   else Inr (zip (map fname (dc_fields rc)) (map the vals))))"

text \<open>\<^verbatim>\<open>isinstance(value, field.type)\<close>: a \<^verbatim>\<open>bool\<close> is an \<^verbatim>\<open>int\<close>.\<close>

fun isinstance :: "pyval \<Rightarrow> pytype \<Rightarrow> bool" where
  "isinstance (PInt i) Tint = True"
| "isinstance (PBool b) Tint = True"
| "isinstance (PFloat x) Tfloat = True"
| "isinstance (PTuple vs) Ttuple = True"
| "isinstance v t = False"

text \<open>
  \<^verbatim>\<open>TableRow._validate\<close>: the first field, in declaration order, whose value is not an
  instance of its annotation raises, naming the field, the type and the value.
\<close>

fun validate_fields :: "field list \<Rightarrow> pyrow \<Rightarrow> error + unit" where
  "validate_fields [] row = Inr ()"
| "validate_fields (f # fs) row =
     (case map_of row (fname f) of
        None \<Rightarrow> Inl AttributeError
      | Some value \<Rightarrow>
          if \<not> isinstance value (ftype f) then Inl (FieldTypeError (fname f) (ftype f) value)
          else validate_fields fs row)"

definition validate :: "RowClass \<Rightarrow> pyrow \<Rightarrow> error + unit" where
  "validate rc row = validate_fields (dc_fields rc) row"

text \<open>\<^verbatim>\<open>asdict\<close> of a row whose fields hold values of the declared types.\<close>

definition IEdgeTableRow_asdict :: "IEdgeTableRow \<Rightarrow> pyrow" where
  "IEdgeTableRow_asdict r =
     [(''child_left'', PInt (child_left r)), (''child_right'', PInt (child_right r)),
      (''parent_left'', PInt (parent_left r)), (''parent_right'', PInt (parent_right r)),
      (''child'', PInt (child r)), (''parent'', PInt (parent r)), (''edge'', PInt (edge r)),
      (''child_chromosome'', PInt (child_chromosome r)),
      (''parent_chromosome'', PInt (parent_chromosome r))]"

definition NodeTableRow_asdict :: "NodeTableRow \<Rightarrow> pyrow" where
  "NodeTableRow_asdict r =
     [(''time'', PFloat (time r)), (''flags'', PInt (node_flags r)),
      (''individual'', PInt (individual r))]"

definition IndividualTableRow_asdict :: "IndividualTableRow \<Rightarrow> pyrow" where
  "IndividualTableRow_asdict r = [(''parents'', PTuple (map PInt (parents r)))]"

section \<open>The generic table\<close>

record 'r BaseTable =
  data :: "'r pyseq"
  frozen :: bool

definition BaseTable_init :: "'r BaseTable" where
  "BaseTable_init = \<lparr>data = PyList [], frozen = False\<rparr>"

text \<open>
  \<^verbatim>\<open>__setattr__\<close>: every attribute assignment on the instance goes through the frozen
  check; the assignment itself is the update \<open>upd\<close>.
\<close>

definition setattr ::
  "(('r, 'm) BaseTable_scheme \<Rightarrow> ('r, 'm) BaseTable_scheme) \<Rightarrow> ('r, 'm) BaseTable_scheme
     \<Rightarrow> error + ('r, 'm) BaseTable_scheme" where
  "setattr upd tbl = (if frozen tbl then Inl AttributeError else Inr (upd tbl))"

definition freeze :: "('r, 'm) BaseTable_scheme \<Rightarrow> error + ('r, 'm) BaseTable_scheme" where
  "freeze tbl =
     (case setattr (\<lambda>t. t\<lparr>data := PyTuple (items (data tbl))\<rparr>) tbl of
        Inl e \<Rightarrow> Inl e
      | Inr t1 \<Rightarrow> setattr (\<lambda>t. t\<lparr>frozen := True\<rparr>) t1)"

definition BaseTable_copy :: "('r, 'm) BaseTable_scheme \<Rightarrow> 'r BaseTable" where
  "BaseTable_copy tbl = BaseTable_init\<lparr>data := PyList (items (data tbl))\<rparr>"

definition table_eq :: "('r, 'm) BaseTable_scheme \<Rightarrow> ('r, 'n) BaseTable_scheme \<Rightarrow> bool" where
  "table_eq a b = (items (data a) = items (data b))"

definition clear :: "('r, 'm) BaseTable_scheme \<Rightarrow> error + ('r, 'm) BaseTable_scheme" where
  "clear tbl = setattr (\<lambda>t. t\<lparr>data := PyList []\<rparr>) tbl"

definition len :: "('r, 'm) BaseTable_scheme \<Rightarrow> nat" where
  "len tbl = length (items (data tbl))"

definition getitem :: "('r, 'm) BaseTable_scheme \<Rightarrow> int \<Rightarrow> error + 'r" where
  "getitem tbl i = py_getitem (items (data tbl)) i"

text \<open>
  \<^verbatim>\<open>self._data.append(self.RowClass(*args, **kwargs))\<close>: the bound method is looked up
  first (a tuple has none), then the row is constructed (\<open>ctor\<close> is the outcome of the
  constructor call), then the list grows in place; the result is the new row's index.
\<close>

definition add_row_with ::
  "(error + 'r) \<Rightarrow> ('r, 'm) BaseTable_scheme \<Rightarrow> error + (('r, 'm) BaseTable_scheme \<times> nat)" where
  "add_row_with ctor tbl =
     (case data tbl of
        PyTuple xs \<Rightarrow> Inl AttributeError
      | PyList xs \<Rightarrow>
          (case ctor of
             Inl e \<Rightarrow> Inl e
           | Inr row \<Rightarrow> Inr (tbl\<lparr>data := PyList (xs @ [row])\<rparr>, length (xs @ [row]) - 1)))"

text \<open>\<^verbatim>\<open>add_row\<close> with untyped arguments, for a table of the row class \<open>rc\<close>.\<close>

definition add_row ::
  "RowClass \<Rightarrow> (pyrow, 'm) BaseTable_scheme \<Rightarrow> pyval list \<Rightarrow> pydict
     \<Rightarrow> error + ((pyrow, 'm) BaseTable_scheme \<times> nat)" where
  "add_row rc tbl args kwargs = add_row_with (RowClass_init rc args kwargs) tbl"

text \<open>\<^verbatim>\<open>BaseTable.append\<close> of a mapping: only the keys in \<^verbatim>\<open>__annotations__\<close> are passed on.\<close>

definition append ::
  "RowClass \<Rightarrow> (pyrow, 'm) BaseTable_scheme \<Rightarrow> pydict
     \<Rightarrow> error + ((pyrow, 'm) BaseTable_scheme \<times> nat)" where
  "append rc tbl obj =
     add_row rc tbl [] (filter (\<lambda>(k, v). k \<in> set (annotations rc)) obj)"

text \<open>
  \<^verbatim>\<open>_check_int\<close>: an \<^verbatim>\<open>int\<close> (a \<^verbatim>\<open>bool\<close> is one) is returned as it is; a float is
  converted when \<^verbatim>\<open>is_integer()\<close> and otherwise raises the \<^verbatim>\<open>ValueError\<close>; a value with
  no \<^verbatim>\<open>is_integer\<close> raises the \<^verbatim>\<open>TypeError\<close>.
\<close>

definition is_integer :: "real \<Rightarrow> bool" where
  "is_integer x = (real_of_int \<lfloor>x\<rfloor> = x)"

fun check_int :: "pyval \<Rightarrow> string option \<Rightarrow> error + pyval" where
  "check_int (PInt i) k = Inr (PInt i)"
| "check_int (PBool b) k = Inr (PBool b)"
| "check_int (PFloat x) k =
     (if is_integer x then Inr (PInt \<lfloor>x\<rfloor>) else Inl (NotIntegerError k (PFloat x)))"
| "check_int v k = Inl (ConversionError k v)"

section \<open>The interval-edge table\<close>

text \<open>
  \<^verbatim>\<open>first_edge_for_child\<close> is set to the empty dict by the constructor and neither read
  nor written again in the module; it is left out.
\<close>

record 'r IEdgeTable = "'r BaseTable" +
  flags :: int

definition IEdgeTable_init :: "constants \<Rightarrow> 'r IEdgeTable" where
  "IEdgeTable_init K = \<lparr>data = PyList [], frozen = False, flags = VALID_GIG K\<rparr>"

text \<open>\<^verbatim>\<open>copy\<close> on an edge table: \<^verbatim>\<open>self.__class__()\<close> is a fresh \<^verbatim>\<open>IEdgeTable\<close>.\<close>

definition IEdgeTable_copy :: "constants \<Rightarrow> 'r IEdgeTable \<Rightarrow> 'r IEdgeTable" where
  "IEdgeTable_copy K tbl = (IEdgeTable_init K)\<lparr>data := PyList (items (data tbl))\<rparr>"

definition unset_bitflag :: "'r IEdgeTable \<Rightarrow> int \<Rightarrow> error + 'r IEdgeTable" where
  "unset_bitflag tbl flag = setattr (\<lambda>t. t\<lparr>flags := flags tbl AND NOT flag\<rparr>) tbl"

definition from_tskit_side :: "pydict \<Rightarrow> string \<Rightarrow> pydict \<Rightarrow> pydict" where
  "from_tskit_side kwargs side new_kw =
     (case map_of kwargs side of
        None \<Rightarrow> new_kw
      | Some v \<Rightarrow> dict_set (dict_set new_kw (''child_'' @ side) v) (''parent_'' @ side) v)"

definition from_tskit :: "pydict \<Rightarrow> pydict" where
  "from_tskit kwargs =
     dict_update (from_tskit_side kwargs ''right'' (from_tskit_side kwargs ''left'' [])) kwargs"

definition pcols :: "string list" where
  "pcols = [''child_left'', ''child_right'', ''parent_left'', ''parent_right'', ''child'', ''parent'']"

text \<open>
  The two comprehensions of \<^verbatim>\<open>add_int_row\<close>: the first four positional arguments, and
  the keyword arguments named in \<^verbatim>\<open>pcols\<close>, go through \<^verbatim>\<open>_check_int\<close>; every other
  argument is passed on as it is.
\<close>

definition coerce_args :: "pyval list \<Rightarrow> error + pyval list" where
  "coerce_args args =
     map_err (\<lambda>(i, v). if i < 4 then check_int v None else Inr v) (zip [0..<length args] args)"

definition coerce_kwarg :: "string \<times> pyval \<Rightarrow> error + (string \<times> pyval)" where
  "coerce_kwarg kv =
     (case kv of (k, v) \<Rightarrow>
        if k \<in> set pcols
        then (case check_int v None of Inl e \<Rightarrow> Inl e | Inr v' \<Rightarrow> Inr (k, v'))
        else Inr (k, v))"

definition coerce_kwargs :: "pydict \<Rightarrow> error + pydict" where
  "coerce_kwargs kwargs = map_err coerce_kwarg kwargs"

definition add_int_row ::
  "constants \<Rightarrow> pyrow IEdgeTable \<Rightarrow> pyval list \<Rightarrow> pydict \<Rightarrow> error + (pyrow IEdgeTable \<times> nat)" where
  "add_int_row K tbl args kwargs =
     (case coerce_args args of
        Inl e \<Rightarrow> Inl e
      | Inr args' \<Rightarrow>
          (case coerce_kwargs kwargs of
             Inl e \<Rightarrow> Inl e
           | Inr kwargs' \<Rightarrow> add_row (IEdgeTableRow_class K) tbl args' kwargs'))"

definition IEdgeTable_append ::
  "constants \<Rightarrow> pyrow IEdgeTable \<Rightarrow> pydict \<Rightarrow> error + (pyrow IEdgeTable \<times> nat)" where
  "IEdgeTable_append K tbl obj =
     add_int_row K tbl []
       (filter (\<lambda>(k, v). k \<in> set (annotations (IEdgeTableRow_class K))) (from_tskit obj))"

section \<open>Tables whose rows hold values of the declared types\<close>

text \<open>
  The algorithms of the aggregate read the columns of the tables as numeric arrays; they
  are modelled on tables whose rows are the dataclasses as declared (integer fields hold
  Python integers that fit the 64-bit arrays, \<^verbatim>\<open>time\<close> holds a float, \<^verbatim>\<open>parents\<close> a
  sequence of integers).  Adding a constructed row is \<open>add_row_with\<close> at \<open>Inr row\<close>:
  with typed values the constructor cannot fail.
\<close>

definition add_typed_row ::
  "('r, 'm) BaseTable_scheme \<Rightarrow> 'r \<Rightarrow> error + (('r, 'm) BaseTable_scheme \<times> nat)" where
  "add_typed_row tbl row = add_row_with (Inr row) tbl"

text \<open>
  \<^verbatim>\<open>IEdgeTable.append(row)\<close> for a row object of the table: \<^verbatim>\<open>asdict\<close>, no \<^verbatim>\<open>left\<close> or
  \<^verbatim>\<open>right\<close> key, every key an annotation, \<^verbatim>\<open>_check_int\<close> the identity on integers
  (lemma \<open>IEdgeTable_append_asdict\<close> below), so the same field values are added.
\<close>

definition IEdgeTable_append_row ::
  "IEdgeTableRow IEdgeTable \<Rightarrow> IEdgeTableRow \<Rightarrow> error + (IEdgeTableRow IEdgeTable \<times> nat)" where
  "IEdgeTable_append_row tbl row = add_typed_row tbl row"

text \<open>A loop whose body may raise: the first exception ends it.\<close>

fun fold_err :: "('a \<Rightarrow> 's \<Rightarrow> error + 's) \<Rightarrow> 'a list \<Rightarrow> 's \<Rightarrow> error + 's" where
  "fold_err f [] s = Inr s"
| "fold_err f (x # xs) s = (case f x s of Inl e \<Rightarrow> Inl e | Inr s' \<Rightarrow> fold_err f xs s')"

section \<open>The Tables aggregate\<close>

record Tables =
  nodes :: "NodeTableRow BaseTable"
  iedges :: "IEdgeTableRow IEdgeTable"
  individuals :: "IndividualTableRow BaseTable"
  time_units :: string
  tables_frozen :: bool

definition Tables_init :: "constants \<Rightarrow> string option \<Rightarrow> Tables" where
  "Tables_init K tu =
     \<lparr>nodes = BaseTable_init, iedges = IEdgeTable_init K, individuals = BaseTable_init,
      time_units = (case tu of None \<Rightarrow> ''unknown'' | Some u \<Rightarrow> u), tables_frozen = False\<rparr>"

definition Tables_setattr :: "(Tables \<Rightarrow> Tables) \<Rightarrow> Tables \<Rightarrow> error + Tables" where
  "Tables_setattr upd t = (if tables_frozen t then Inl AttributeError else Inr (upd t))"

text \<open>
  Attribute lookup on a \<^verbatim>\<open>Tables\<close> instance.  The class defines no \<^verbatim>\<open>__getattr__\<close>; the
  data attributes are the three tables, \<^verbatim>\<open>time_units\<close> and \<^verbatim>\<open>_frozen\<close> (the methods and
  \<^verbatim>\<open>table_classes\<close> are attributes too, and are not data).  Any other name raises.
\<close>

datatype tables_attr =
    Attr_nodes "NodeTableRow BaseTable"
  | Attr_iedges "IEdgeTableRow IEdgeTable"
  | Attr_individuals "IndividualTableRow BaseTable"
  | Attr_time_units string
  | Attr_frozen bool

definition Tables_getattr :: "Tables \<Rightarrow> string \<Rightarrow> error + tables_attr" where
  "Tables_getattr t name =
     (if name = ''nodes'' then Inr (Attr_nodes (nodes t))
      else if name = ''iedges'' then Inr (Attr_iedges (iedges t))
      else if name = ''individuals'' then Inr (Attr_individuals (individuals t))
      else if name = ''time_units'' then Inr (Attr_time_units (time_units t))
      else if name = ''_frozen'' then Inr (Attr_frozen (tables_frozen t))
      else Inl AttributeError)"

definition Tables_eq :: "Tables \<Rightarrow> Tables \<Rightarrow> bool" where
  "Tables_eq a b =
     (table_eq (nodes a) (nodes b) \<and> table_eq (iedges a) (iedges b)
      \<and> table_eq (individuals a) (individuals b) \<and> time_units a = time_units b)"

subsection \<open>add_iedge_row\<close>

text \<open>\<^verbatim>\<open>self.nodes[v]\<close> for an untyped index: a list index must be an integer.\<close>

fun getitem_val :: "('r, 'm) BaseTable_scheme \<Rightarrow> pyval \<Rightarrow> error + 'r" where
  "getitem_val tbl (PInt i) = getitem tbl i"
| "getitem_val tbl (PBool b) = getitem tbl (if b then 1 else 0)"
| "getitem_val tbl v = Inl TypeError"

definition dict_getitem :: "pydict \<Rightarrow> string \<Rightarrow> error + pyval" where
  "dict_getitem d k = (case map_of d k of None \<Rightarrow> Inl KeyError | Some v \<Rightarrow> Inr v)"

text \<open>
  The check made when \<^verbatim>\<open>node_time_validation\<close> is true: an \<^verbatim>\<open>IndexError\<close> of either
  lookup becomes the \<^verbatim>\<open>ValueError\<close> about node ids; other exceptions pass through.
\<close>

definition node_time_check :: "Tables \<Rightarrow> pydict \<Rightarrow> error + unit" where
  "node_time_check t kwargs =
     (case dict_getitem kwargs ''child'' of
        Inl e \<Rightarrow> Inl e
      | Inr c \<Rightarrow>
          (case getitem_val (nodes t) c of
             Inl e \<Rightarrow> (if e = IndexError then Inl ReferenceError else Inl e)
           | Inr cn \<Rightarrow>
               (case dict_getitem kwargs ''parent'' of
                  Inl e \<Rightarrow> Inl e
                | Inr p \<Rightarrow>
                    (case getitem_val (nodes t) p of
                       Inl e \<Rightarrow> (if e = IndexError then Inl ReferenceError else Inl e)
                     | Inr pn \<Rightarrow>
                         if time cn \<ge> time pn then Inl OrderingError else Inr ()))))"

text \<open>
  \<^verbatim>\<open>self.edges.unset_bitflag(flag)\<close>: the attribute \<^verbatim>\<open>edges\<close> is looked up on the
  aggregate; only an edge table has the method.
\<close>

definition edges_unset_bitflag :: "Tables \<Rightarrow> int \<Rightarrow> error + Tables" where
  "edges_unset_bitflag t flag =
     (case Tables_getattr t ''edges'' of
        Inl e \<Rightarrow> Inl e
      | Inr a \<Rightarrow>
          (case a of
             Attr_iedges tbl \<Rightarrow>
               (case unset_bitflag tbl flag of Inl e \<Rightarrow> Inl e | Inr tbl' \<Rightarrow> Inr (t\<lparr>iedges := tbl'\<rparr>))
           | _ \<Rightarrow> Inl AttributeError))"

text \<open>
  \<^verbatim>\<open>self.edges.add_row(*args**kwargs)\<close>: the attribute lookup comes first; the argument
  is the tuple \<^verbatim>\<open>args\<close> raised to the power of the dict \<^verbatim>\<open>kwargs\<close>, an unsupported
  operand pair.
\<close>

definition edges_add_row :: "Tables \<Rightarrow> pyval list \<Rightarrow> pydict \<Rightarrow> error + Tables" where
  "edges_add_row t args kwargs =
     (case Tables_getattr t ''edges'' of
        Inl e \<Rightarrow> Inl e
      | Inr a \<Rightarrow> Inl TypeError)"

definition add_iedge_row ::
  "constants \<Rightarrow> Tables \<Rightarrow> pyval list \<Rightarrow> bool option \<Rightarrow> pydict \<Rightarrow> error + Tables" where
  "add_iedge_row K t args node_time_validation kwargs =
     (if node_time_validation = Some True then
        (case node_time_check t kwargs of
           Inl e \<Rightarrow> Inl e
         | Inr u \<Rightarrow> edges_add_row t args kwargs)
      else if node_time_validation = None then
        (case edges_unset_bitflag t (IEDGES_PARENT_OLDER_THAN_CHILD K) of
           Inl e \<Rightarrow> Inl e
         | Inr t' \<Rightarrow> edges_add_row t' args kwargs)
      else edges_add_row t args kwargs)"

subsection \<open>copy\<close>

definition Tables_copy :: "constants \<Rightarrow> Tables \<Rightarrow> Tables" where
  "Tables_copy K t =
     (Tables_init K None)
       \<lparr>nodes := BaseTable_copy (nodes t), iedges := IEdgeTable_copy K (iedges t),
        individuals := BaseTable_copy (individuals t), time_units := time_units t\<rparr>"

subsection \<open>sort\<close>

text \<open>
  \<^verbatim>\<open>a[idx]\<close> for numpy arrays: every index is taken as Python indexing does, and one
  out of bounds raises \<^verbatim>\<open>IndexError\<close>.
\<close>

definition np_take :: "'a list \<Rightarrow> int list \<Rightarrow> error + 'a list" where
  "np_take a idx = map_err (py_getitem a) idx"

text \<open>
  \<^verbatim>\<open>np.lexsort((k1, k2, k3))\<close>: the indices of a stable sort whose primary key is the
  last one, \<open>k3\<close>, then \<open>k2\<close>, then \<open>k1\<close>.
\<close>

definition lexsort :: "int list \<Rightarrow> int list \<Rightarrow> real list \<Rightarrow> nat list" where
  "lexsort k1 k2 k3 = sort_key (\<lambda>i. (k3 ! i, k2 ! i, k1 ! i)) [0..<length k3]"

definition append_rows ::
  "IEdgeTableRow IEdgeTable \<Rightarrow> IEdgeTableRow list \<Rightarrow> error + IEdgeTableRow IEdgeTable" where
  "append_rows tbl rows =
     fold_err (\<lambda>row tb. case IEdgeTable_append_row tb row of Inl e \<Rightarrow> Inl e | Inr (tb', n) \<Rightarrow> Inr tb')
       rows tbl"

definition Tables_sort :: "constants \<Rightarrow> Tables \<Rightarrow> error + Tables" where
  "Tables_sort K t =
     (if len (iedges t) = 0 then Inr t
      else
        (let rows = items (data (iedges t)) in
         case np_take (map time (items (data (nodes t)))) (map child rows) of
           Inl e \<Rightarrow> Inl e
         | Inr child_times \<Rightarrow>
             (let edge_order = lexsort (map child_left rows) (map child rows) (map uminus child_times)
              in case append_rows (IEdgeTable_init K) (map (\<lambda>i. rows ! i) edge_order) of
                   Inl e \<Rightarrow> Inl e
                 | Inr new_iedges \<Rightarrow> Tables_setattr (\<lambda>s. s\<lparr>iedges := new_iedges\<rparr>) t)))"

subsection \<open>decapitate\<close>

text \<open>
  The state of the first loop: the new individual table, \<^verbatim>\<open>individual_map\<close>, the new
  node table and \<^verbatim>\<open>node_map\<close>.
\<close>

type_synonym decap_state =
  "IndividualTableRow BaseTable \<times> (int \<rightharpoonup> int) \<times> NodeTableRow BaseTable \<times> (int \<rightharpoonup> int)"

definition map_get :: "(int \<rightharpoonup> int) \<Rightarrow> int \<Rightarrow> int \<Rightarrow> int" where
  "map_get m j d = (case m j of None \<Rightarrow> d | Some v \<Rightarrow> v)"

definition decap_individual ::
  "constants \<Rightarrow> IndividualTableRow \<Rightarrow> int \<Rightarrow> IndividualTableRow BaseTable \<times> (int \<rightharpoonup> int)
     \<Rightarrow> error + (IndividualTableRow BaseTable \<times> (int \<rightharpoonup> int))" where
  "decap_individual K indiv i st =
     (case st of (inds, imap) \<Rightarrow>
        if imap i = None then
          (case add_typed_row inds \<lparr>parents = map (\<lambda>j. map_get imap j (NULL K)) (parents indiv)\<rparr> of
             Inl e \<Rightarrow> Inl e
           | Inr (inds', k) \<Rightarrow> Inr (inds', imap(i \<mapsto> int k)))
        else Inr (inds, imap))"

definition decap_node ::
  "constants \<Rightarrow> real \<Rightarrow> Tables \<Rightarrow> nat \<times> NodeTableRow \<Rightarrow> decap_state \<Rightarrow> error + decap_state" where
  "decap_node K cutoff t und st =
     (case und of (u, nd) \<Rightarrow>
      case st of (inds, imap, nds, nmap) \<Rightarrow>
        if time nd < cutoff then
          (case getitem (individuals t) (individual nd) of
             Inl e \<Rightarrow> Inl e
           | Inr indiv \<Rightarrow>
               (case decap_individual K indiv (individual nd) (inds, imap) of
                  Inl e \<Rightarrow> Inl e
                | Inr (inds', imap') \<Rightarrow>
                    (case imap' (individual nd) of
                       None \<Rightarrow> Inl KeyError
                     | Some v \<Rightarrow>
                         (case add_typed_row nds
                                 \<lparr>time = time nd, node_flags = node_flags nd, individual = v\<rparr> of
                            Inl e \<Rightarrow> Inl e
                          | Inr (nds', k) \<Rightarrow> Inr (inds', imap', nds', nmap(int u \<mapsto> int k))))))
        else Inr st)"

definition decap_edge ::
  "constants \<Rightarrow> (int \<rightharpoonup> int) \<Rightarrow> IEdgeTableRow \<Rightarrow> IEdgeTableRow IEdgeTable
     \<Rightarrow> error + IEdgeTableRow IEdgeTable" where
  "decap_edge K nmap ie tbl =
     (case nmap (parent ie) of
        None \<Rightarrow> Inr tbl
      | Some p \<Rightarrow>
          (case nmap (child ie) of
             None \<Rightarrow> Inl KeyError
           | Some c \<Rightarrow>
               (case add_typed_row tbl
                       \<lparr>child_left = child_left ie, child_right = child_right ie,
                        parent_left = parent_left ie, parent_right = parent_right ie,
                        child = c, parent = p, edge = NULL K,
                        child_chromosome = NULL K, parent_chromosome = NULL K\<rparr> of
                  Inl e \<Rightarrow> Inl e
                | Inr (tbl', n) \<Rightarrow> Inr tbl')))"

definition decapitate :: "constants \<Rightarrow> Tables \<Rightarrow> real \<Rightarrow> error + Tables" where
  "decapitate K t cutoff =
     (let node_rows = items (data (nodes t)) in
      case fold_err (decap_node K cutoff t) (zip [0..<length node_rows] node_rows)
             (BaseTable_init, [NULL K \<mapsto> NULL K], BaseTable_init, Map.empty) of
        Inl e \<Rightarrow> Inl e
      | Inr (inds, imap, nds, nmap) \<Rightarrow>
          (case fold_err (decap_edge K nmap) (items (data (iedges t))) (IEdgeTable_init K) of
             Inl e \<Rightarrow> Inl e
           | Inr ies \<Rightarrow>
               (case Tables_setattr (\<lambda>s. s\<lparr>nodes := nds\<rparr>) t of
                  Inl e \<Rightarrow> Inl e
                | Inr t1 \<Rightarrow>
                    (case Tables_setattr (\<lambda>s. s\<lparr>iedges := ies\<rparr>) t1 of
                       Inl e \<Rightarrow> Inl e
                     | Inr t2 \<Rightarrow>
                         (case Tables_setattr (\<lambda>s. s\<lparr>individuals := inds\<rparr>) t2 of
                            Inl e \<Rightarrow> Inl e
                          | Inr t3 \<Rightarrow> Tables_sort K t3)))))"

subsection \<open>from_tree_sequence\<close>

text \<open>
  The external table collection, as far as the import reads it: the rows of the node,
  edge and individual tables (the fields \<^verbatim>\<open>asdict\<close> yields; \<^verbatim>\<open>metadata\<close> and
  \<^verbatim>\<open>location\<close> are dropped by \<^verbatim>\<open>append\<close> and left out), the row counts of the tables it
  refuses, and \<^verbatim>\<open>time_units\<close>.
\<close>

record tskit_node =
  ts_flags :: int
  ts_time :: real
  ts_population :: int
  ts_individual :: int

record tskit_edge =
  ts_left :: real
  ts_right :: real
  ts_parent :: int
  ts_child :: int

record tskit_individual =
  ts_ind_flags :: int
  ts_ind_parents :: "int list"

record tree_sequence =
  ts_nodes :: "tskit_node list"
  ts_edges :: "tskit_edge list"
  ts_individuals :: "tskit_individual list"
  migrations_num_rows :: nat
  mutations_num_rows :: nat
  sites_num_rows :: nat
  populations_num_rows :: nat
  ts_time_units :: string

text \<open>
  The dict the import passes to \<^verbatim>\<open>IEdgeTable.append\<close> for an edge row: \<^verbatim>\<open>asdict(row)\<close>
  with both chromosome keys set when a chromosome is given.
\<close>

definition tskit_edge_obj :: "tskit_edge \<Rightarrow> int option \<Rightarrow> pydict" where
  "tskit_edge_obj e chromosome =
     (let obj = [(''left'', PFloat (ts_left e)), (''right'', PFloat (ts_right e)),
                 (''parent'', PInt (ts_parent e)), (''child'', PInt (ts_child e)),
                 (''metadata'', PStr [])]
      in case chromosome of
           None \<Rightarrow> obj
         | Some c \<Rightarrow> dict_set (dict_set obj ''parent_chromosome'' (PInt c)) ''child_chromosome'' (PInt c))"

text \<open>
  The dict the import passes to the node table's \<^verbatim>\<open>append\<close>: \<^verbatim>\<open>asdict(row)\<close> with
  \<^verbatim>\<open>timedelta\<close> added to \<^verbatim>\<open>time\<close>.
\<close>

definition tskit_node_obj ::
  "(real \<Rightarrow> real \<Rightarrow> real) \<Rightarrow> tskit_node \<Rightarrow> real \<Rightarrow> pydict" where
  "tskit_node_obj float_add row timedelta =
     [(''flags'', PInt (ts_flags row)), (''time'', PFloat (float_add (ts_time row) timedelta)),
      (''population'', PInt (ts_population row)), (''individual'', PInt (ts_individual row)),
      (''metadata'', PStr [])]"

text \<open>
  \<^verbatim>\<open>tables.iedges.append(obj)\<close> on typed rows: \<^verbatim>\<open>left\<close> and \<^verbatim>\<open>right\<close> go to both sides
  and through \<^verbatim>\<open>_check_int\<close> (\<^verbatim>\<open>child_left\<close>, \<^verbatim>\<open>parent_left\<close> first, then the right
  ends); node ids are integers already (lemma \<open>IEdgeTable_append_tskit_obj\<close> below).
\<close>

definition IEdgeTable_append_tskit ::
  "constants \<Rightarrow> IEdgeTableRow IEdgeTable \<Rightarrow> tskit_edge \<Rightarrow> int option
     \<Rightarrow> error + (IEdgeTableRow IEdgeTable \<times> nat)" where
  "IEdgeTable_append_tskit K tbl e chromosome =
     (if \<not> is_integer (ts_left e) then Inl (NotIntegerError None (PFloat (ts_left e)))
      else if \<not> is_integer (ts_right e) then Inl (NotIntegerError None (PFloat (ts_right e)))
      else add_typed_row tbl
             \<lparr>child_left = \<lfloor>ts_left e\<rfloor>, child_right = \<lfloor>ts_right e\<rfloor>,
              parent_left = \<lfloor>ts_left e\<rfloor>, parent_right = \<lfloor>ts_right e\<rfloor>,
              child = ts_child e, parent = ts_parent e, edge = NULL K,
              child_chromosome = (case chromosome of None \<Rightarrow> NULL K | Some c \<Rightarrow> c),
              parent_chromosome = (case chromosome of None \<Rightarrow> NULL K | Some c \<Rightarrow> c)\<rparr>)"

definition import_node ::
  "(real \<Rightarrow> real \<Rightarrow> real) \<Rightarrow> real \<Rightarrow> tskit_node \<Rightarrow> NodeTableRow BaseTable
     \<Rightarrow> error + NodeTableRow BaseTable" where
  "import_node float_add timedelta row tbl =
     (case add_typed_row tbl
             \<lparr>time = float_add (ts_time row) timedelta, node_flags = ts_flags row,
              individual = ts_individual row\<rparr> of
        Inl e \<Rightarrow> Inl e
      | Inr (tbl', n) \<Rightarrow> Inr tbl')"

definition import_edge ::
  "constants \<Rightarrow> int option \<Rightarrow> tskit_edge \<Rightarrow> IEdgeTableRow IEdgeTable
     \<Rightarrow> error + IEdgeTableRow IEdgeTable" where
  "import_edge K chromosome row tbl =
     (case IEdgeTable_append_tskit K tbl row chromosome of
        Inl e \<Rightarrow> Inl e
      | Inr (tbl', n) \<Rightarrow> Inr tbl')"

definition import_individual ::
  "tskit_individual \<Rightarrow> IndividualTableRow BaseTable \<Rightarrow> error + IndividualTableRow BaseTable" where
  "import_individual row tbl =
     (case add_typed_row tbl \<lparr>parents = ts_ind_parents row\<rparr> of
        Inl e \<Rightarrow> Inl e
      | Inr (tbl', n) \<Rightarrow> Inr tbl')"

definition from_tree_sequence ::
  "constants \<Rightarrow> (real \<Rightarrow> real \<Rightarrow> real) \<Rightarrow> tree_sequence \<Rightarrow> int option \<Rightarrow> real
     \<Rightarrow> error + Tables" where
  "from_tree_sequence K float_add ts chromosome timedelta =
     (let tables = Tables_init K (Some (ts_time_units ts)) in
      if migrations_num_rows ts > 0 then Inl NotImplementedError
      else if mutations_num_rows ts > 0 then Inl NotImplementedError
      else if sites_num_rows ts > 0 then Inl NotImplementedError
      else if populations_num_rows ts > 1 then Inl NotImplementedError
      else
        (case fold_err (import_node float_add timedelta) (ts_nodes ts) (nodes tables) of
           Inl e \<Rightarrow> Inl e
         | Inr nds \<Rightarrow>
             (case fold_err (import_edge K chromosome) (ts_edges ts) (iedges tables) of
                Inl e \<Rightarrow> Inl e
              | Inr ies \<Rightarrow>
                  (case fold_err import_individual (ts_individuals ts) (individuals tables) of
                     Inl e \<Rightarrow> Inl e
                   | Inr inds \<Rightarrow>
                       Tables_sort K (tables\<lparr>nodes := nds, iedges := ies, individuals := inds\<rparr>)))))"

section \<open>Vocabulary of the properties and example inputs\<close>

text \<open>
  Modelled from the spec: the values of \<^verbatim>\<open>constants.py\<close> are not in the module.  The
  spec names a null sentinel and says that the flag word of a new edge table defaults to
  "fully valid", a word that holds every guarantee bit, "every edge's parent node is
  strictly older than its child node" among them.  One such assignment, used where a
  closed example needs values.
\<close>

definition example_constants :: constants where
  "example_constants = \<lparr>NULL = - 1, VALID_GIG = 3, IEDGES_PARENT_OLDER_THAN_CHILD = 2\<rparr>"

text \<open>The row constructors with every defaulted field at its default.\<close>

definition IEdgeTableRow_new ::
  "constants \<Rightarrow> int \<Rightarrow> int \<Rightarrow> int \<Rightarrow> int \<Rightarrow> int \<Rightarrow> int \<Rightarrow> IEdgeTableRow" where
  "IEdgeTableRow_new K cl cr pl pr c p =
     \<lparr>child_left = cl, child_right = cr, parent_left = pl, parent_right = pr,
      child = c, parent = p, edge = NULL K, child_chromosome = NULL K,
      parent_chromosome = NULL K\<rparr>"

definition NodeTableRow_new :: "constants \<Rightarrow> real \<Rightarrow> NodeTableRow" where
  "NodeTableRow_new K t = \<lparr>time = t, node_flags = 0, individual = NULL K\<rparr>"

text \<open>An aggregate built by appending the given node and edge rows to new tables.\<close>

definition Tables_of ::
  "constants \<Rightarrow> NodeTableRow list \<Rightarrow> IEdgeTableRow list \<Rightarrow> IndividualTableRow list \<Rightarrow> Tables" where
  "Tables_of K ns es is =
     (Tables_init K None)
       \<lparr>nodes := BaseTable_init\<lparr>data := PyList ns\<rparr>,
        iedges := (IEdgeTable_init K)\<lparr>data := PyList es\<rparr>,
        individuals := BaseTable_init\<lparr>data := PyList is\<rparr>\<rparr>"

text \<open>
  The scenario of the spec: node times 0, 1, 2, no individuals, the edges
  (0,10,0,10,child=0,parent=1) and (0,10,0,10,child=1,parent=2).
\<close>

definition scenario :: "constants \<Rightarrow> Tables" where
  "scenario K =
     Tables_of K [NodeTableRow_new K 0, NodeTableRow_new K 1, NodeTableRow_new K 2]
       [IEdgeTableRow_new K 0 10 0 10 0 1, IEdgeTableRow_new K 0 10 0 10 1 2] []"

definition scenario_sorted :: "constants \<Rightarrow> Tables" where
  "scenario_sorted K =
     Tables_of K [NodeTableRow_new K 0, NodeTableRow_new K 1, NodeTableRow_new K 2]
       [IEdgeTableRow_new K 0 10 0 10 1 2, IEdgeTableRow_new K 0 10 0 10 0 1] []"

text \<open>
  Four nodes with times 0, 1, 2, 3 and two edges: node 0 inherits from node 3, node 1
  from node 2.
\<close>

definition skip_generation :: "constants \<Rightarrow> Tables" where
  "skip_generation K =
     Tables_of K
       [NodeTableRow_new K 0, NodeTableRow_new K 1, NodeTableRow_new K 2, NodeTableRow_new K 3]
       [IEdgeTableRow_new K 0 10 0 10 0 3, IEdgeTableRow_new K 0 10 0 10 1 2] []"

definition skip_generation_sorted :: "constants \<Rightarrow> Tables" where
  "skip_generation_sorted K =
     Tables_of K
       [NodeTableRow_new K 0, NodeTableRow_new K 1, NodeTableRow_new K 2, NodeTableRow_new K 3]
       [IEdgeTableRow_new K 0 10 0 10 1 2, IEdgeTableRow_new K 0 10 0 10 0 3] []"

text \<open>The node times read along the edge table through each edge's \<^verbatim>\<open>parent\<close>.\<close>

definition parent_times :: "Tables \<Rightarrow> error + real list" where
  "parent_times t =
     np_take (map time (items (data (nodes t)))) (map parent (items (data (iedges t))))"

text \<open>
  The fields of a row whose value is not an instance of the declared type, in declaration
  order, each with its value.
\<close>

definition mismatches :: "RowClass \<Rightarrow> pyrow \<Rightarrow> (field \<times> pyval) list" where
  "mismatches rc row =
     List.map_filter
       (\<lambda>f. case map_of row (fname f) of
              None \<Rightarrow> None
            | Some v \<Rightarrow> if isinstance v (ftype f) then None else Some (f, v))
       (dc_fields rc)"

text \<open>An edge mapping as the external format has it, with a non-integral left end.\<close>

definition fractional_edge_obj :: pydict where
  "fractional_edge_obj = [(''left'', PFloat (1 / 2)), (''right'', PFloat 10), (''child'', PInt 0), (''parent'', PInt 1)]"

text \<open>
  The keys \<^verbatim>\<open>sort\<close> hands to \<^verbatim>\<open>lexsort\<close>, read along the edge table, primary key first:
  the negated time of the child node, the child id, the child-side left coordinate.
\<close>

definition sort_keys :: "Tables \<Rightarrow> error + (real \<times> int \<times> int) list" where
  "sort_keys t =
     (let rows = items (data (iedges t)) in
      case np_take (map time (items (data (nodes t)))) (map child rows) of
        Inl e \<Rightarrow> Inl e
      | Inr child_times \<Rightarrow>
          Inr (zip (map uminus child_times) (zip (map child rows) (map child_left rows))))"

text \<open>
  Vocabulary for \<^verbatim>\<open>decapitate\<close>.  A node id survives the cutoff when it indexes a node
  row whose time is below it; its new id is the number of surviving rows before it (the
  dense, order-preserving renumbering).  A reference is valid for a table of \<open>n\<close> rows
  when it is the null sentinel or an index below \<open>n\<close>.  \<open>remap_edge\<close> is the row
  \<^verbatim>\<open>decapitate\<close> builds from a kept edge; \<open>decap_inv\<close> is the invariant of its first
  loop after the node rows \<open>pre\<close>.
\<close>

definition survives :: "real \<Rightarrow> NodeTableRow list \<Rightarrow> int \<Rightarrow> bool" where
  "survives cutoff ns u = (0 \<le> u \<and> u < int (length ns) \<and> time (ns ! nat u) < cutoff)"

definition new_node_id :: "real \<Rightarrow> NodeTableRow list \<Rightarrow> int \<Rightarrow> int" where
  "new_node_id cutoff ns u = int (length (filter (\<lambda>nd. time nd < cutoff) (take (nat u) ns)))"

definition valid_ref :: "constants \<Rightarrow> nat \<Rightarrow> int \<Rightarrow> bool" where
  "valid_ref K n v = (if v = NULL K then True else 0 \<le> v \<and> v < int n)"

definition remap_edge :: "constants \<Rightarrow> (int \<Rightarrow> int) \<Rightarrow> IEdgeTableRow \<Rightarrow> IEdgeTableRow" where
  "remap_edge K f e =
     \<lparr>child_left = child_left e, child_right = child_right e,
      parent_left = parent_left e, parent_right = parent_right e,
      child = f (child e), parent = f (parent e), edge = NULL K,
      child_chromosome = NULL K, parent_chromosome = NULL K\<rparr>"

definition decap_inv :: "constants \<Rightarrow> real \<Rightarrow> NodeTableRow list \<Rightarrow> decap_state \<Rightarrow> bool" where
  "decap_inv K cutoff pre st =
     (case st of (inds, imap, nds, nmap) \<Rightarrow>
        \<not> frozen inds \<and> \<not> frozen nds
      \<and> (\<exists>is ns. data inds = PyList is \<and> data nds = PyList ns
           \<and> map time ns = map time (filter (\<lambda>nd. time nd < cutoff) pre)
           \<and> map node_flags ns = map node_flags (filter (\<lambda>nd. time nd < cutoff) pre)
           \<and> (\<forall>u. nmap u = (if survives cutoff pre u then Some (new_node_id cutoff pre u) else None))
           \<and> (\<forall>i v. imap i = Some v \<longrightarrow> valid_ref K (length is) v)
           \<and> list_all (\<lambda>ind. list_all (valid_ref K (length is)) (parents ind)) is
           \<and> list_all (\<lambda>nd. valid_ref K (length is) (individual nd)) ns))"

text \<open>
  Three individuals and their genomes: node 0 (time 1) of individual 0, node 1 (time 0) of
  individual 1, whose parents are individuals 0 and 2, and node 2 (time 2) of individual 2;
  both edges carry an edge id and chromosome tags.  \<open>family_decapitated\<close> is what
  \<^verbatim>\<open>decapitate(1.5)\<close> makes of it.
\<close>

definition family :: Tables where
  "family =
     Tables_of example_constants
       [\<lparr>time = 1, node_flags = 0, individual = 0\<rparr>,
        \<lparr>time = 0, node_flags = 1, individual = 1\<rparr>,
        \<lparr>time = 2, node_flags = 0, individual = 2\<rparr>]
       [\<lparr>child_left = 0, child_right = 10, parent_left = 0, parent_right = 10,
         child = 1, parent = 0, edge = 7, child_chromosome = 1, parent_chromosome = 2\<rparr>,
        \<lparr>child_left = 0, child_right = 10, parent_left = 0, parent_right = 10,
         child = 0, parent = 2, edge = 8, child_chromosome = 1, parent_chromosome = 2\<rparr>]
       [\<lparr>parents = [2]\<rparr>, \<lparr>parents = [0, 2]\<rparr>, \<lparr>parents = []\<rparr>]"

definition family_decapitated :: Tables where
  "family_decapitated =
     Tables_of example_constants
       [\<lparr>time = 1, node_flags = 0, individual = 0\<rparr>,
        \<lparr>time = 0, node_flags = 1, individual = 1\<rparr>]
       [\<lparr>child_left = 0, child_right = 10, parent_left = 0, parent_right = 10,
         child = 1, parent = 0, edge = - 1, child_chromosome = - 1, parent_chromosome = - 1\<rparr>]
       [\<lparr>parents = [- 1]\<rparr>, \<lparr>parents = [0, - 1]\<rparr>]"

text \<open>
  The scenario with the "parent older than child" bit (2 in \<open>example_constants\<close>) cleared
  from the flag word 3 of its edge table.
\<close>

definition unverified_scenario :: Tables where
  "unverified_scenario =
     (scenario example_constants)\<lparr>iedges := (iedges (scenario example_constants))\<lparr>flags := 1\<rparr>\<rparr>"

text \<open>
  Vocabulary for the import.  A collection is unsupported when it has a migration, a
  mutation or a site row, or more than one population row.  \<open>imported_node\<close>,
  \<open>imported_edge\<close> and \<open>imported_individual\<close> are the rows the three loops add;
  \<open>imported_tables\<close> is the aggregate they leave for the final \<^verbatim>\<open>sort()\<close>.  An edge is
  integral when both its ends are integral floats; an index is in bounds for an array of
  \<open>n\<close> elements when numpy accepts it.
\<close>

definition unsupported :: "tree_sequence \<Rightarrow> bool" where
  "unsupported ts =
     (migrations_num_rows ts > 0 \<or> mutations_num_rows ts > 0 \<or> sites_num_rows ts > 0
      \<or> populations_num_rows ts > 1)"

definition imported_node ::
  "(real \<Rightarrow> real \<Rightarrow> real) \<Rightarrow> real \<Rightarrow> tskit_node \<Rightarrow> NodeTableRow" where
  "imported_node float_add timedelta row =
     \<lparr>time = float_add (ts_time row) timedelta, node_flags = ts_flags row,
      individual = ts_individual row\<rparr>"

definition imported_edge :: "constants \<Rightarrow> int option \<Rightarrow> tskit_edge \<Rightarrow> IEdgeTableRow" where
  "imported_edge K chromosome e =
     \<lparr>child_left = \<lfloor>ts_left e\<rfloor>, child_right = \<lfloor>ts_right e\<rfloor>,
      parent_left = \<lfloor>ts_left e\<rfloor>, parent_right = \<lfloor>ts_right e\<rfloor>,
      child = ts_child e, parent = ts_parent e, edge = NULL K,
      child_chromosome = (case chromosome of None \<Rightarrow> NULL K | Some c \<Rightarrow> c),
      parent_chromosome = (case chromosome of None \<Rightarrow> NULL K | Some c \<Rightarrow> c)\<rparr>"

definition imported_individual :: "tskit_individual \<Rightarrow> IndividualTableRow" where
  "imported_individual row = \<lparr>parents = ts_ind_parents row\<rparr>"

definition integral_edge :: "tskit_edge \<Rightarrow> bool" where
  "integral_edge e = (is_integer (ts_left e) \<and> is_integer (ts_right e))"

definition index_in_bounds :: "nat \<Rightarrow> int \<Rightarrow> bool" where
  "index_in_bounds n i = (- int n \<le> i \<and> i < int n)"

definition imported_tables ::
  "constants \<Rightarrow> (real \<Rightarrow> real \<Rightarrow> real) \<Rightarrow> tree_sequence \<Rightarrow> int option \<Rightarrow> real
     \<Rightarrow> Tables" where
  "imported_tables K float_add ts chromosome timedelta =
     (Tables_init K (Some (ts_time_units ts)))
       \<lparr>nodes := BaseTable_init\<lparr>data := PyList (map (imported_node float_add timedelta) (ts_nodes ts))\<rparr>,
        iedges := (IEdgeTable_init K)\<lparr>data := PyList (map (imported_edge K chromosome) (ts_edges ts))\<rparr>,
        individuals := BaseTable_init\<lparr>data := PyList (map imported_individual (ts_individuals ts))\<rparr>\<rparr>"

text \<open>
  Two small collections.  \<open>fractional_ts\<close> has two nodes and one edge whose left end is
  0.5.  \<open>small_ts\<close> has three nodes with times 0, 1, 2 and the edges (parent 1, child 0),
  (parent 2, child 1), in that order; \<open>small_imported\<close> is what the import makes of it
  with \<^verbatim>\<open>timedelta\<close> 5: the times 5, 6, 7 and the edge of the older child first.  On the
  times of both collections the double sum is the exact sum.
\<close>

definition fractional_ts :: tree_sequence where
  "fractional_ts =
     \<lparr>ts_nodes = [\<lparr>ts_flags = 1, ts_time = 0, ts_population = 0, ts_individual = - 1\<rparr>,
                  \<lparr>ts_flags = 0, ts_time = 1, ts_population = 0, ts_individual = - 1\<rparr>],
      ts_edges = [\<lparr>ts_left = 1 / 2, ts_right = 10, ts_parent = 1, ts_child = 0\<rparr>],
      ts_individuals = [],
      migrations_num_rows = 0, mutations_num_rows = 0, sites_num_rows = 0,
      populations_num_rows = 1, ts_time_units = ''generations''\<rparr>"

definition small_ts :: tree_sequence where
  "small_ts =
     \<lparr>ts_nodes = [\<lparr>ts_flags = 1, ts_time = 0, ts_population = 0, ts_individual = - 1\<rparr>,
                  \<lparr>ts_flags = 0, ts_time = 1, ts_population = 0, ts_individual = - 1\<rparr>,
                  \<lparr>ts_flags = 0, ts_time = 2, ts_population = 0, ts_individual = - 1\<rparr>],
      ts_edges = [\<lparr>ts_left = 0, ts_right = 10, ts_parent = 1, ts_child = 0\<rparr>,
                  \<lparr>ts_left = 0, ts_right = 10, ts_parent = 2, ts_child = 1\<rparr>],
      ts_individuals = [],
      migrations_num_rows = 0, mutations_num_rows = 0, sites_num_rows = 0,
      populations_num_rows = 1, ts_time_units = ''generations''\<rparr>"

definition small_imported :: Tables where
  "small_imported =
     (Tables_of example_constants
        [\<lparr>time = 5, node_flags = 1, individual = - 1\<rparr>,
         \<lparr>time = 6, node_flags = 0, individual = - 1\<rparr>,
         \<lparr>time = 7, node_flags = 0, individual = - 1\<rparr>]
        [IEdgeTableRow_new example_constants 0 10 0 10 1 2,
         IEdgeTableRow_new example_constants 0 10 0 10 0 1] [])
       \<lparr>time_units := ''generations''\<rparr>"

text \<open>
  Vocabulary for \<^verbatim>\<open>add_int_row\<close>.  A value is integral-valued when it is an integer (a
  \<^verbatim>\<open>bool\<close> is one) or a float with no fractional part; \<open>as_integer\<close> is the integer of
  such a value; \<open>coercion_error\<close> is the exception a value that is not integral-valued
  raises.  \<open>coerced_values\<close> lists the values the method coerces, in the order it meets
  them; \<open>with_integers\<close> and \<open>with_integer_fields\<close> are the arguments it passes on.
\<close>

definition integral_valued :: "pyval \<Rightarrow> bool" where
  "integral_valued v =
     (case v of PInt i \<Rightarrow> True | PBool b \<Rightarrow> True | PFloat x \<Rightarrow> is_integer x | _ \<Rightarrow> False)"

definition as_integer :: "pyval \<Rightarrow> pyval" where
  "as_integer v = (case v of PFloat x \<Rightarrow> PInt \<lfloor>x\<rfloor> | _ \<Rightarrow> v)"

definition coercion_error :: "pyval \<Rightarrow> error" where
  "coercion_error v =
     (case v of PFloat x \<Rightarrow> NotIntegerError None v | _ \<Rightarrow> ConversionError None v)"

definition coerced_values :: "pyval list \<Rightarrow> pydict \<Rightarrow> pyval list" where
  "coerced_values args kwargs =
     take 4 args @ map snd (filter (\<lambda>(k, v). k \<in> set pcols) kwargs)"

definition with_integers :: "pyval list \<Rightarrow> pyval list" where
  "with_integers args = map as_integer (take 4 args) @ drop 4 args"

definition with_integer_fields :: "pydict \<Rightarrow> pydict" where
  "with_integer_fields kwargs =
     map (\<lambda>(k, v). if k \<in> set pcols then (k, as_integer v) else (k, v)) kwargs"

text \<open>
  Arguments with a float coordinate, a float parent id and a float edge id, and the row
  \<^verbatim>\<open>add_int_row\<close> constructs from them.
\<close>

definition float_args :: "pyval list" where
  "float_args = [PFloat 4, PInt 10, PInt 0, PInt 10]"

definition float_kwargs :: pydict where
  "float_kwargs = [(''child'', PInt 0), (''parent'', PFloat 1), (''edge'', PFloat 4)]"

definition float_row :: pyrow where
  "float_row =
     [(''child_left'', PInt 4), (''child_right'', PInt 10),
      (''parent_left'', PInt 0), (''parent_right'', PInt 10),
      (''child'', PInt 0), (''parent'', PInt 1), (''edge'', PFloat 4),
      (''child_chromosome'', PInt (- 1)), (''parent_chromosome'', PInt (- 1))]"

section \<open>Properties\<close>

subsection \<open>Indexing\<close>

lemma py_getitem_Nil: "py_getitem [] i = Inl IndexError"
  by (auto simp: py_getitem_def)

subsection \<open>The typed operations agree with the untyped ones\<close>

lemma IEdgeTable_append_asdict:
  "IEdgeTable_append K tbl (IEdgeTableRow_asdict r) = add_row_with (Inr (IEdgeTableRow_asdict r)) tbl"
  by (simp add: IEdgeTable_append_def IEdgeTableRow_asdict_def from_tskit_def from_tskit_side_def
      dict_update_def IEdgeTableRow_class_def mk_field_def add_int_row_def coerce_args_def
      coerce_kwargs_def coerce_kwarg_def pcols_def add_row_def
      RowClass_init_def bind_positional_def field_value_def)

lemma IEdgeTable_append_tskit_obj:
  "IEdgeTable_append K tbl (tskit_edge_obj e chromosome) =
     (if \<not> is_integer (ts_left e) then Inl (NotIntegerError None (PFloat (ts_left e)))
      else if \<not> is_integer (ts_right e) then Inl (NotIntegerError None (PFloat (ts_right e)))
      else add_row_with (Inr (IEdgeTableRow_asdict
             \<lparr>child_left = \<lfloor>ts_left e\<rfloor>, child_right = \<lfloor>ts_right e\<rfloor>,
              parent_left = \<lfloor>ts_left e\<rfloor>, parent_right = \<lfloor>ts_right e\<rfloor>,
              child = ts_child e, parent = ts_parent e, edge = NULL K,
              child_chromosome = (case chromosome of None \<Rightarrow> NULL K | Some c \<Rightarrow> c),
              parent_chromosome = (case chromosome of None \<Rightarrow> NULL K | Some c \<Rightarrow> c)\<rparr>)) tbl)"
  by (cases chromosome)
    (simp_all add: IEdgeTable_append_def tskit_edge_obj_def IEdgeTableRow_asdict_def from_tskit_def
      from_tskit_side_def dict_update_def IEdgeTableRow_class_def mk_field_def add_int_row_def
      coerce_args_def coerce_kwargs_def coerce_kwarg_def pcols_def add_row_def RowClass_init_def bind_positional_def field_value_def)

text \<open>
  The constructors on values of the declared types: the call \<^verbatim>\<open>decapitate\<close> makes for a
  node, the call it makes for an edge (the defaulted fields are the null sentinel), the
  call for an individual; such rows pass \<^verbatim>\<open>_validate\<close>; and the node table's \<^verbatim>\<open>append\<close>
  of an imported node.
\<close>

lemma NodeTableRow_init_typed:
  "RowClass_init (NodeTableRow_class K) []
       [(''time'', PFloat t), (''flags'', PInt f), (''individual'', PInt i)]
     = Inr (NodeTableRow_asdict \<lparr>time = t, node_flags = f, individual = i\<rparr>)"
  by (simp add: RowClass_init_def NodeTableRow_class_def mk_field_def bind_positional_def
      field_value_def NodeTableRow_asdict_def)

lemma IEdgeTableRow_init_typed:
  "RowClass_init (IEdgeTableRow_class K) [PInt cl, PInt cr, PInt pl, PInt pr]
       [(''child'', PInt c), (''parent'', PInt p)]
     = Inr (IEdgeTableRow_asdict (IEdgeTableRow_new K cl cr pl pr c p))"
  by (simp add: RowClass_init_def IEdgeTableRow_class_def mk_field_def bind_positional_def
      field_value_def IEdgeTableRow_asdict_def IEdgeTableRow_new_def)

lemma IndividualTableRow_init_typed:
  "RowClass_init IndividualTableRow_class [] [(''parents'', PTuple (map PInt ps))]
     = Inr (IndividualTableRow_asdict \<lparr>parents = ps\<rparr>)"
  by (simp add: RowClass_init_def IndividualTableRow_class_def mk_field_def bind_positional_def
      field_value_def IndividualTableRow_asdict_def)

lemma validate_typed_rows:
  "validate (IEdgeTableRow_class K) (IEdgeTableRow_asdict e) = Inr ()"
  "validate (NodeTableRow_class K) (NodeTableRow_asdict n) = Inr ()"
  "validate IndividualTableRow_class (IndividualTableRow_asdict i) = Inr ()"
  by (simp_all add: validate_def IEdgeTableRow_class_def NodeTableRow_class_def
      IndividualTableRow_class_def mk_field_def IEdgeTableRow_asdict_def NodeTableRow_asdict_def
      IndividualTableRow_asdict_def)

lemma append_tskit_node_obj:
  "append (NodeTableRow_class K) tbl (tskit_node_obj float_add row timedelta)
     = add_row_with (Inr (NodeTableRow_asdict (imported_node float_add timedelta row))) tbl"
  by (simp add: append_def add_row_def tskit_node_obj_def RowClass_init_def NodeTableRow_class_def
      mk_field_def bind_positional_def field_value_def NodeTableRow_asdict_def imported_node_def)

subsection \<open>add_iedge_row\<close>

lemma Tables_getattr_edges: "Tables_getattr t ''edges'' = Inl AttributeError"
  by (simp add: Tables_getattr_def)

text \<open>
  C2.  The claim: on an unfrozen aggregate, \<^verbatim>\<open>add_iedge_row\<close> with
  \<^verbatim>\<open>node_time_validation\<close> unspecified clears the "parent older than child" bit, appends
  one edge row and returns normally.  The code does none of it: the method reads the
  attribute \<^verbatim>\<open>edges\<close>, which the aggregate does not have (its edge table is \<^verbatim>\<open>iedges\<close>),
  so for every aggregate and all arguments the call raises \<^verbatim>\<open>AttributeError\<close> before a
  flag is cleared or a row is added; the same holds when validation is switched off.
\<close>

theorem add_iedge_row_raises:
  "add_iedge_row K t args None kwargs = Inl AttributeError
   \<and> add_iedge_row K t args (Some False) kwargs = Inl AttributeError"
  by (simp add: add_iedge_row_def edges_unset_bitflag_def edges_add_row_def Tables_getattr_edges)

subsection \<open>The scenario of the spec\<close>

text \<open>
  C3.  The claim: on the three-node scenario \<^verbatim>\<open>sort()\<close> puts the edge with parent 2
  first, and \<^verbatim>\<open>decapitate(1.5)\<close> then returns normally with nodes 0 and 1 and one edge.
  The first half holds.  \<^verbatim>\<open>decapitate\<close> does not return: the nodes carry the default
  \<^verbatim>\<open>individual = NULL\<close>, the loop reads \<^verbatim>\<open>self.individuals[NULL]\<close> before it consults
  \<^verbatim>\<open>individual_map\<close>, and the individual table is empty, so the read raises
  \<^verbatim>\<open>IndexError\<close> whatever integer \<^verbatim>\<open>NULL\<close> is (before and after the sort).
\<close>

theorem scenario_sort_then_decapitate:
  "Tables_sort K (scenario K) = Inr (scenario_sorted K)
   \<and> decapitate K (scenario_sorted K) (3 / 2) = Inl IndexError
   \<and> decapitate K (scenario K) (3 / 2) = Inl IndexError"
proof -
  have "Tables_sort K (scenario K) = Inr (scenario_sorted K)"
    by (simp add: Tables_sort_def scenario_def scenario_sorted_def Tables_of_def Tables_init_def
        BaseTable_init_def IEdgeTable_init_def len_def np_take_def py_getitem_def
        NodeTableRow_new_def IEdgeTableRow_new_def lexsort_def upt_conv_Cons append_rows_def
        IEdgeTable_append_row_def add_typed_row_def add_row_with_def Tables_setattr_def)
  moreover have "decapitate K (scenario_sorted K) (3 / 2) = Inl IndexError"
    by (simp add: decapitate_def scenario_sorted_def Tables_of_def Tables_init_def
        BaseTable_init_def IEdgeTable_init_def upt_conv_Cons decap_node_def NodeTableRow_new_def
        getitem_def py_getitem_Nil)
  moreover have "decapitate K (scenario K) (3 / 2) = Inl IndexError"
    by (simp add: decapitate_def scenario_def Tables_of_def Tables_init_def
        BaseTable_init_def IEdgeTable_init_def upt_conv_Cons decap_node_def NodeTableRow_new_def
        getitem_def py_getitem_Nil)
  ultimately show ?thesis by simp
qed

subsection \<open>The primary key of sort\<close>

text \<open>
  C1.  The claim: after \<^verbatim>\<open>sort()\<close> the edges are ordered by the parent node's time,
  descending, so the parent times along the edge table do not increase.  The code's
  primary key is \<^verbatim>\<open>-self.nodes.time[self.iedges.child]\<close>, the time of the child node.
  With node times 0, 1, 2, 3 and the edges (child 0, parent 3), (child 1, parent 2) the
  sorted table starts with the edge whose child is node 1, and the parent times along it
  are 2, 3: increasing.
\<close>

theorem sort_orders_by_child_time:
  "Tables_sort K (skip_generation K) = Inr (skip_generation_sorted K)
   \<and> parent_times (skip_generation_sorted K) = Inr [2, 3]
   \<and> \<not> sorted (rev [2, 3 :: real])"
proof -
  have "Tables_sort K (skip_generation K) = Inr (skip_generation_sorted K)"
    by (simp add: Tables_sort_def skip_generation_def skip_generation_sorted_def Tables_of_def
        Tables_init_def BaseTable_init_def IEdgeTable_init_def len_def np_take_def py_getitem_def
        NodeTableRow_new_def IEdgeTableRow_new_def lexsort_def upt_conv_Cons append_rows_def
        IEdgeTable_append_row_def add_typed_row_def add_row_with_def Tables_setattr_def)
  moreover have "parent_times (skip_generation_sorted K) = Inr [2, 3]"
    by (simp add: parent_times_def skip_generation_sorted_def Tables_of_def Tables_init_def
        BaseTable_init_def IEdgeTable_init_def np_take_def py_getitem_def NodeTableRow_new_def
        IEdgeTableRow_new_def)
  ultimately show ?thesis by simp
qed

subsection \<open>add_row and field validation\<close>

lemma validate_fields_first_mismatch:
  "list_all (\<lambda>f. map_of row (fname f) \<noteq> None) fs \<Longrightarrow>
   validate_fields fs row =
     (case List.map_filter
         (\<lambda>f. case map_of row (fname f) of
              None \<Rightarrow> None
            | Some v \<Rightarrow> if isinstance v (ftype f) then None else Some (f, v)) fs of
        [] \<Rightarrow> Inr ()
      | (f, v) # rest \<Rightarrow> Inl (FieldTypeError (fname f) (ftype f) v))"
  by (induction fs) (auto simp: List.map_filter_simps split: option.splits)

lemma RowClass_init_keys:
  "RowClass_init rc args kwargs = Inr row \<Longrightarrow> map fst row = map fname (dc_fields rc)"
  by (auto simp: RowClass_init_def Let_def split: sum.splits if_splits)

lemma RowClass_init_fields:
  assumes "RowClass_init rc args kwargs = Inr row"
  shows "list_all (\<lambda>f. map_of row (fname f) \<noteq> None) (dc_fields rc)"
proof -
  have "fst ` set row = fname ` set (dc_fields rc)"
    using RowClass_init_keys[OF assms] by (metis set_map)
  then show ?thesis
    by (simp add: list_all_iff map_of_eq_None_iff)
qed

lemma IndividualTableRow_init_mistyped:
  "RowClass_init IndividualTableRow_class [PInt 5] [] = Inr [(''parents'', PInt 5)]"
  by (simp add: RowClass_init_def IndividualTableRow_class_def mk_field_def bind_positional_def
      field_value_def)

text \<open>
  C4, as the code has it.  \<^verbatim>\<open>add_row\<close> makes no field-type check: whenever the arguments
  bind to the row class's constructor and the table is not frozen, it appends the
  constructed row and returns its index, whether or not the values match the declared
  types.  The field-type error belongs to the row's separate \<^verbatim>\<open>_validate\<close> method, which
  no constructor and no table method calls: on a constructed row it raises exactly when
  some field's value is not an instance of the declared type, naming the first such field,
  its type and the value.
\<close>

theorem add_row_does_not_validate:
  assumes "data tbl = PyList xs" and "RowClass_init rc args kwargs = Inr row"
  shows "add_row rc tbl args kwargs = Inr (tbl\<lparr>data := PyList (xs @ [row])\<rparr>, length xs)
    \<and> validate rc row =
         (case mismatches rc row of
            [] \<Rightarrow> Inr ()
          | (f, v) # rest \<Rightarrow> Inl (FieldTypeError (fname f) (ftype f) v))"
  using assms validate_fields_first_mismatch[OF RowClass_init_fields[OF assms(2)]]
  by (simp add: add_row_def add_row_with_def validate_def mismatches_def)

theorem add_row_does_not_validate_witness:
  "add_row IndividualTableRow_class BaseTable_init [PInt 5] []
     = Inr (BaseTable_init\<lparr>data := PyList [[(''parents'', PInt 5)]]\<rparr>, 0)
   \<and> validate IndividualTableRow_class [(''parents'', PInt 5)]
     = Inl (FieldTypeError ''parents'' Ttuple (PInt 5))"
proof -
  have d: "data (BaseTable_init :: pyrow BaseTable) = PyList []"
    by (simp add: BaseTable_init_def)
  have m: "mismatches IndividualTableRow_class [(''parents'', PInt 5)]
      = [(mk_field ''parents'' Ttuple (Some (PTuple [])) False, PInt 5)]"
    by (simp add: mismatches_def IndividualTableRow_class_def mk_field_def List.map_filter_simps)
  show ?thesis
    using add_row_does_not_validate[OF d IndividualTableRow_init_mistyped]
    by (simp add: m mk_field_def)
qed

text \<open>
  C4 as stated fails: \<^verbatim>\<open>IndividualTable().add_row(5)\<close> gives \<^verbatim>\<open>parents\<close> the integer 5,
  not a tuple, and the row is appended at index 0 with no error.
\<close>

theorem add_row_accepts_mistyped_value:
  "\<not> isinstance (PInt 5) Ttuple
   \<and> add_row IndividualTableRow_class BaseTable_init [PInt 5] []
       = Inr (BaseTable_init\<lparr>data := PyList [[(''parents'', PInt 5)]]\<rparr>, 0)"
  by (simp add: add_row_def add_row_with_def IndividualTableRow_init_mistyped BaseTable_init_def)

subsection \<open>Integer coercion in add_int_row\<close>

lemma map_err_Inr: "map_err f xs = Inr ys \<Longrightarrow> list_all2 (\<lambda>x y. f x = Inr y) xs ys"
  by (induction xs arbitrary: ys) (auto split: sum.splits)

lemma check_int_integral:
  "integral_valued v \<Longrightarrow> check_int v k = Inr (as_integer v)"
  by (cases v) (simp_all add: integral_valued_def as_integer_def)

lemma check_int_not_integral:
  "\<not> integral_valued v \<Longrightarrow> check_int v None = Inl (coercion_error v)"
  by (cases v) (simp_all add: integral_valued_def coercion_error_def)

lemma map_err_all:
  "(\<And>x. x \<in> set xs \<Longrightarrow> f x = Inr (g x)) \<Longrightarrow> map_err f xs = Inr (map g xs)"
  by (induction xs) simp_all

lemma map_err_first:
  "(\<And>x. x \<in> set ok \<Longrightarrow> \<exists>y. f x = Inr y) \<Longrightarrow> f v = Inl e \<Longrightarrow>
     map_err f (ok @ v # rest) = Inl e"
proof (induction ok)
  case Nil
  then show ?case by simp
next
  case (Cons a ok)
  from Cons.prems(1)[of a] obtain y where "f a = Inr y" by auto
  moreover have "map_err f (ok @ v # rest) = Inl e"
    by (rule Cons.IH) (use Cons.prems in auto)
  ultimately show ?case by simp
qed

lemma positional_ok:
  "list_all integral_valued (take (4 - m) args) \<Longrightarrow>
     map_err (\<lambda>(i, v). if i < 4 then check_int v None else Inr v) (zip [m..<m + length args] args)
       = Inr (map as_integer (take (4 - m) args) @ drop (4 - m) args)"
proof (induction args arbitrary: m)
  case Nil
  then show ?case by simp
next
  case (Cons a args)
  have z: "zip [m..<m + length (a # args)] (a # args)
      = (m, a) # zip [Suc m..<Suc m + length args] args"
    by (simp del: upt_Suc add: upt_conv_Cons)
  show ?case
  proof (cases "m < 4")
    case True
    then obtain d where d: "4 - m = Suc d" "4 - Suc m = d" by (cases "4 - m") auto
    with Cons.prems have a: "integral_valued a" and r: "list_all integral_valued (take (4 - Suc m) args)"
      by simp_all
    from Cons.IH[OF r] check_int_integral[OF a] True d show ?thesis
      unfolding z by simp
  next
    case False
    then have d: "4 - m = 0" "4 - Suc m = 0" by simp_all
    have "list_all integral_valued (take (4 - Suc m) args)" using d by simp
    from Cons.IH[OF this] False d show ?thesis unfolding z by simp
  qed
qed

lemma positional_fail:
  "take (4 - m) args = ok @ v # rest \<Longrightarrow> list_all integral_valued ok \<Longrightarrow> \<not> integral_valued v \<Longrightarrow>
     map_err (\<lambda>(i, v). if i < 4 then check_int v None else Inr v) (zip [m..<m + length args] args)
       = Inl (coercion_error v)"
proof (induction args arbitrary: m ok)
  case Nil
  then show ?case by simp
next
  case (Cons a args)
  have z: "zip [m..<m + length (a # args)] (a # args)
      = (m, a) # zip [Suc m..<Suc m + length args] args"
    by (simp del: upt_Suc add: upt_conv_Cons)
  from Cons.prems(1) have m: "m < 4" by (cases "m < 4") auto
  then obtain d where d: "4 - m = Suc d" "4 - Suc m = d" by (cases "4 - m") auto
  with Cons.prems(1) have t: "a # take (4 - Suc m) args = ok @ v # rest" by simp
  show ?case
  proof (cases ok)
    case Nil
    with t have "a = v" by simp
    with check_int_not_integral[OF Cons.prems(3)] m show ?thesis unfolding z by simp
  next
    case (Cons b ok')
    with t have ab: "a = b" and t': "take (4 - Suc m) args = ok' @ v # rest" by simp_all
    from Cons Cons.prems(2) have ia: "integral_valued b" and io: "list_all integral_valued ok'"
      by simp_all
    from Cons.IH[OF t' io Cons.prems(3)] check_int_integral[OF ia] ab m show ?thesis
      unfolding z by simp
  qed
qed

lemma coerce_args_ok:
  "list_all integral_valued (take 4 args) \<Longrightarrow> coerce_args args = Inr (with_integers args)"
  using positional_ok[of 0 args] by (simp add: coerce_args_def with_integers_def)

lemma coerce_args_fail:
  "take 4 args = ok @ v # rest \<Longrightarrow> list_all integral_valued ok \<Longrightarrow> \<not> integral_valued v \<Longrightarrow>
     coerce_args args = Inl (coercion_error v)"
  using positional_fail[of 0 args ok v rest] by (simp add: coerce_args_def)

lemma coerce_kwargs_ok:
  "list_all integral_valued (map snd (filter (\<lambda>(k, v). k \<in> set pcols) kwargs)) \<Longrightarrow>
     coerce_kwargs kwargs = Inr (with_integer_fields kwargs)"
  unfolding coerce_kwargs_def with_integer_fields_def
  by (rule map_err_all) (auto simp: coerce_kwarg_def list_all_iff check_int_integral)

lemma coerce_kwargs_fail:
  "map snd (filter (\<lambda>(k, v). k \<in> set pcols) kwargs) = ok @ v # rest \<Longrightarrow>
   list_all integral_valued ok \<Longrightarrow> \<not> integral_valued v \<Longrightarrow>
     coerce_kwargs kwargs = Inl (coercion_error v)"
proof (induction kwargs arbitrary: ok)
  case Nil
  then show ?case by simp
next
  case (Cons kv kwargs)
  obtain k w where kv: "kv = (k, w)" by (cases kv)
  show ?case
  proof (cases "k \<in> set pcols")
    case False
    with Cons.prems kv have "map snd (filter (\<lambda>(k, v). k \<in> set pcols) kwargs) = ok @ v # rest"
      by simp
    from Cons.IH[OF this Cons.prems(2,3)] False kv show ?thesis
      by (simp add: coerce_kwargs_def coerce_kwarg_def)
  next
    case True
    with Cons.prems kv have t: "w # map snd (filter (\<lambda>(k, v). k \<in> set pcols) kwargs) = ok @ v # rest"
      by simp
    show ?thesis
    proof (cases ok)
      case Nil
      with t have "w = v" by simp
      with check_int_not_integral[OF Cons.prems(3)] True kv show ?thesis
        by (simp add: coerce_kwargs_def coerce_kwarg_def)
    next
      case (Cons b ok')
      with t have wb: "w = b"
        and t': "map snd (filter (\<lambda>(k, v). k \<in> set pcols) kwargs) = ok' @ v # rest" by simp_all
      from Cons Cons.prems(2) have ib: "integral_valued b" and io: "list_all integral_valued ok'"
        by simp_all
      from Cons.IH[OF t' io Cons.prems(3)] check_int_integral[OF ib] wb True kv show ?thesis
        by (simp add: coerce_kwargs_def coerce_kwarg_def)
    qed
  qed
qed


lemma add_int_row_ok:
  assumes "list_all integral_valued (coerced_values args kwargs)"
  shows "add_int_row K tbl args kwargs
      = add_row (IEdgeTableRow_class K) tbl (with_integers args) (with_integer_fields kwargs)"
proof -
  from assms have a: "list_all integral_valued (take 4 args)"
    and k: "list_all integral_valued (map snd (filter (\<lambda>(k, v). k \<in> set pcols) kwargs))"
    by (simp_all add: coerced_values_def)
  show ?thesis
    by (simp add: add_int_row_def coerce_args_ok[OF a] coerce_kwargs_ok[OF k])
qed

lemma add_int_row_first_failure:
  assumes c: "coerced_values args kwargs = ok @ v # rest"
    and ok: "list_all integral_valued ok" and v: "\<not> integral_valued v"
  shows "add_int_row K tbl args kwargs = Inl (coercion_error v)"
proof -
  let ?A = "take 4 args"
  let ?B = "map snd (filter (\<lambda>(k, v). k \<in> set pcols) kwargs)"
  from c have "?A @ ?B = ok @ v # rest" by (simp add: coerced_values_def)
  then consider us where "?A = ok @ us" "us @ ?B = v # rest"
    | us where "?A @ us = ok" "?B = us @ v # rest"
    by (auto simp: append_eq_append_conv2)
  then show ?thesis
  proof cases
    case 1
    show ?thesis
    proof (cases us)
      case Nil
      with 1 have A: "?A = ok" and B: "?B = [] @ v # rest" by simp_all
      from A ok have "list_all integral_valued ?A" by simp
      from coerce_args_ok[OF this] coerce_kwargs_fail[OF B _ v] show ?thesis
        by (simp add: add_int_row_def)
    next
      case (Cons u us')
      with 1 have "?A = ok @ v # us'" by simp
      from coerce_args_fail[OF this ok v] show ?thesis by (simp add: add_int_row_def)
    qed
  next
    case 2
    from 2(1) ok have A: "list_all integral_valued ?A" and U: "list_all integral_valued us"
      by auto
    from coerce_args_ok[OF A] coerce_kwargs_fail[OF 2(2) U v] show ?thesis
      by (simp add: add_int_row_def)
  qed
qed

text \<open>
  C8, as the code has it.  The values \<^verbatim>\<open>add_int_row\<close> coerces are, in the order it
  evaluates them, the first four positional arguments and then the keyword arguments
  named \<^verbatim>\<open>child_left\<close>, \<^verbatim>\<open>child_right\<close>, \<^verbatim>\<open>parent_left\<close>, \<^verbatim>\<open>parent_right\<close>,
  \<^verbatim>\<open>child\<close>, \<^verbatim>\<open>parent\<close>.  When every one of them is integral-valued, the call is
  \<^verbatim>\<open>add_row\<close> on the arguments with each integral float among these replaced by its
  integer and every other argument (\<^verbatim>\<open>edge\<close> and the chromosome fields among them)
  unchanged: on an unfrozen table, when the arguments bind, the constructed row is
  appended and its index returned.  Otherwise the first of them that is not
  integral-valued decides the exception: the not-an-integer error when it is a float,
  the conversion error when it is not a number; the call returns no table, so no row is
  appended.
\<close>

theorem add_int_row_coerces_and_appends:
  "(list_all integral_valued (coerced_values args kwargs) \<longrightarrow>
       add_int_row K tbl args kwargs
         = add_row (IEdgeTableRow_class K) tbl (with_integers args) (with_integer_fields kwargs)
     \<and> (\<forall>xs row. data tbl = PyList xs
           \<and> RowClass_init (IEdgeTableRow_class K) (with_integers args) (with_integer_fields kwargs)
               = Inr row \<longrightarrow>
          add_int_row K tbl args kwargs = Inr (tbl\<lparr>data := PyList (xs @ [row])\<rparr>, length xs)))
   \<and> (\<forall>ok v rest. coerced_values args kwargs = ok @ v # rest
          \<and> list_all integral_valued ok \<and> \<not> integral_valued v \<longrightarrow>
        add_int_row K tbl args kwargs = Inl (coercion_error v))
   \<and> ''edge'' \<notin> set pcols \<and> ''child_chromosome'' \<notin> set pcols \<and> ''parent_chromosome'' \<notin> set pcols"
proof -
  have A: "list_all integral_valued (coerced_values args kwargs) \<longrightarrow>
       add_int_row K tbl args kwargs
         = add_row (IEdgeTableRow_class K) tbl (with_integers args) (with_integer_fields kwargs)
     \<and> (\<forall>xs row. data tbl = PyList xs
           \<and> RowClass_init (IEdgeTableRow_class K) (with_integers args) (with_integer_fields kwargs)
               = Inr row \<longrightarrow>
          add_int_row K tbl args kwargs = Inr (tbl\<lparr>data := PyList (xs @ [row])\<rparr>, length xs))"
  proof
    assume h: "list_all integral_valued (coerced_values args kwargs)"
    note e = add_int_row_ok[OF h, of K tbl]
    have "\<forall>xs row. data tbl = PyList xs
           \<and> RowClass_init (IEdgeTableRow_class K) (with_integers args) (with_integer_fields kwargs)
               = Inr row \<longrightarrow>
          add_int_row K tbl args kwargs = Inr (tbl\<lparr>data := PyList (xs @ [row])\<rparr>, length xs)"
      by (simp add: e add_row_def add_row_with_def)
    with e show "add_int_row K tbl args kwargs
         = add_row (IEdgeTableRow_class K) tbl (with_integers args) (with_integer_fields kwargs)
     \<and> (\<forall>xs row. data tbl = PyList xs
           \<and> RowClass_init (IEdgeTableRow_class K) (with_integers args) (with_integer_fields kwargs)
               = Inr row \<longrightarrow>
          add_int_row K tbl args kwargs = Inr (tbl\<lparr>data := PyList (xs @ [row])\<rparr>, length xs))"
      by (rule conjI)
  qed
  have B: "\<forall>ok v rest. coerced_values args kwargs = ok @ v # rest
          \<and> list_all integral_valued ok \<and> \<not> integral_valued v \<longrightarrow>
        add_int_row K tbl args kwargs = Inl (coercion_error v)"
    using add_int_row_first_failure by blast
  have C: "''edge'' \<notin> set pcols" "''child_chromosome'' \<notin> set pcols"
    "''parent_chromosome'' \<notin> set pcols"
    by (simp_all add: pcols_def)
  from A B C show ?thesis by (intro conjI)
qed

subsection \<open>Examples for add_int_row\<close>

lemma add_int_row_float_edge:
  "add_int_row example_constants (IEdgeTable_init example_constants)
       [PInt 0, PInt 10, PInt 0, PInt 10]
       [(''child'', PInt 0), (''parent'', PInt 1), (''edge'', PFloat 4)]
     = Inr ((IEdgeTable_init example_constants)
              \<lparr>data := PyList
                 [[(''child_left'', PInt 0), (''child_right'', PInt 10),
                   (''parent_left'', PInt 0), (''parent_right'', PInt 10),
                   (''child'', PInt 0), (''parent'', PInt 1), (''edge'', PFloat 4),
                   (''child_chromosome'', PInt (- 1)), (''parent_chromosome'', PInt (- 1))]]\<rparr>, 0)"
  by (simp add: add_int_row_def coerce_args_def coerce_kwargs_def coerce_kwarg_def pcols_def
      upt_conv_Cons add_row_def add_row_with_def RowClass_init_def bind_positional_def
      field_value_def IEdgeTableRow_class_def mk_field_def IEdgeTable_init_def example_constants_def)

text \<open>
  C8 as stated fails for the \<^verbatim>\<open>edge\<close> keyword:
  \<^verbatim>\<open>add_int_row(0, 10, 0, 10, child=0, parent=1, edge=4.0)\<close> appends a row whose
  \<^verbatim>\<open>edge\<close> is still the float 4.0.
\<close>

theorem add_int_row_keeps_float_edge:
  "is_integer 4
   \<and> add_int_row example_constants (IEdgeTable_init example_constants)
       [PInt 0, PInt 10, PInt 0, PInt 10]
       [(''child'', PInt 0), (''parent'', PInt 1), (''edge'', PFloat 4)]
     = Inr ((IEdgeTable_init example_constants)
              \<lparr>data := PyList
                 [[(''child_left'', PInt 0), (''child_right'', PInt 10),
                   (''parent_left'', PInt 0), (''parent_right'', PInt 10),
                   (''child'', PInt 0), (''parent'', PInt 1), (''edge'', PFloat 4),
                   (''child_chromosome'', PInt (- 1)), (''parent_chromosome'', PInt (- 1))]]\<rparr>, 0)"
  by (simp add: add_int_row_float_edge is_integer_def)

theorem add_int_row_coerces_and_appends_witness:
  "add_int_row example_constants (IEdgeTable_init example_constants) float_args float_kwargs
     = Inr ((IEdgeTable_init example_constants)\<lparr>data := PyList [float_row]\<rparr>, 0)
   \<and> add_int_row example_constants (IEdgeTable_init example_constants)
       [PInt 0, PInt 10, PInt 0, PInt 10] [(''child'', PStr ''a''), (''parent'', PFloat (1 / 2))]
     = Inl (ConversionError None (PStr ''a''))
   \<and> add_int_row example_constants (IEdgeTable_init example_constants)
       [PInt 0, PFloat (1 / 2), PStr ''x''] []
     = Inl (NotIntegerError None (PFloat (1 / 2)))"
proof -
  note T1 = add_int_row_coerces_and_appends[of float_args float_kwargs example_constants
      "IEdgeTable_init example_constants", THEN conjunct1]
  note T2 = add_int_row_coerces_and_appends[of "[PInt 0, PInt 10, PInt 0, PInt 10]"
      "[(''child'', PStr ''a''), (''parent'', PFloat (1 / 2))]" example_constants
      "IEdgeTable_init example_constants", THEN conjunct2, THEN conjunct1, rule_format,
      of "[PInt 0, PInt 10, PInt 0, PInt 10]" "PStr ''a''" "[PFloat (1 / 2)]"]
  note T3 = add_int_row_coerces_and_appends[of "[PInt 0, PFloat (1 / 2), PStr ''x'']" "[]"
      example_constants "IEdgeTable_init example_constants", THEN conjunct2, THEN conjunct1,
      rule_format, of "[PInt 0]" "PFloat (1 / 2)" "[PStr ''x'']"]
  have h1: "list_all integral_valued (coerced_values float_args float_kwargs)"
    by (simp add: coerced_values_def float_args_def float_kwargs_def pcols_def integral_valued_def
        is_integer_def)
  have d1: "data (IEdgeTable_init example_constants :: pyrow IEdgeTable) = PyList []"
    by (simp add: IEdgeTable_init_def)
  have r1: "RowClass_init (IEdgeTableRow_class example_constants) (with_integers float_args)
      (with_integer_fields float_kwargs) = Inr float_row"
    by (simp add: with_integers_def with_integer_fields_def float_args_def float_kwargs_def
        as_integer_def pcols_def RowClass_init_def bind_positional_def field_value_def
        IEdgeTableRow_class_def mk_field_def float_row_def example_constants_def)
  from mp[OF T1 h1] have "\<forall>xs row. data (IEdgeTable_init example_constants :: pyrow IEdgeTable) = PyList xs
       \<and> RowClass_init (IEdgeTableRow_class example_constants) (with_integers float_args)
           (with_integer_fields float_kwargs) = Inr row \<longrightarrow>
       add_int_row example_constants (IEdgeTable_init example_constants) float_args float_kwargs
         = Inr ((IEdgeTable_init example_constants)\<lparr>data := PyList (xs @ [row])\<rparr>, length xs)"
    by (rule conjunct2)
  from this[rule_format, OF conjI[OF d1 r1]]
  have 1: "add_int_row example_constants (IEdgeTable_init example_constants) float_args float_kwargs
     = Inr ((IEdgeTable_init example_constants)\<lparr>data := PyList [float_row]\<rparr>, 0)"
    by simp
  have 2: "add_int_row example_constants (IEdgeTable_init example_constants)
       [PInt 0, PInt 10, PInt 0, PInt 10] [(''child'', PStr ''a''), (''parent'', PFloat (1 / 2))]
     = Inl (ConversionError None (PStr ''a''))"
    using T2 by (simp add: coerced_values_def pcols_def integral_valued_def coercion_error_def)
  have 3: "add_int_row example_constants (IEdgeTable_init example_constants)
       [PInt 0, PFloat (1 / 2), PStr ''x''] []
     = Inl (NotIntegerError None (PFloat (1 / 2)))"
    using T3 by (simp add: coerced_values_def integral_valued_def coercion_error_def is_integer_def)
  from 1 2 3 show ?thesis by (intro conjI)
qed

subsection \<open>Frozen tables\<close>

lemma freeze_Inr:
  "freeze tbl = Inr ft \<Longrightarrow> \<not> frozen tbl \<and> ft = tbl\<lparr>data := PyTuple (items (data tbl)), frozen := True\<rparr>"
  by (auto simp: freeze_def setattr_def split: if_splits)

lemma freeze_unfrozen:
  "\<not> frozen tbl \<Longrightarrow> freeze tbl = Inr (tbl\<lparr>data := PyTuple (items (data tbl)), frozen := True\<rparr>)"
  by (simp add: freeze_def setattr_def)

lemma add_row_with_tuple: "data tbl = PyTuple xs \<Longrightarrow> add_row_with ctor tbl = Inl AttributeError"
  by (simp add: add_row_with_def)

lemma coerce_args_Nil: "coerce_args [] = Inr []"
  by (simp add: coerce_args_def)

text \<open>
  C6, as the code has it.  After \<^verbatim>\<open>freeze()\<close> the table has the rows it had, held in a
  tuple.  \<^verbatim>\<open>add_row\<close>, \<^verbatim>\<open>append\<close>, \<^verbatim>\<open>clear\<close>, a second \<^verbatim>\<open>freeze\<close> and every
  attribute assignment raise \<^verbatim>\<open>AttributeError\<close>: the tuple has no \<^verbatim>\<open>append\<close> (looked up
  before the row is constructed), and \<^verbatim>\<open>__setattr__\<close> refuses.  On an edge table
  \<^verbatim>\<open>unset_bitflag\<close> raises it too, while \<^verbatim>\<open>add_int_row\<close> and the edge table's
  \<^verbatim>\<open>append\<close> coerce their arguments first: they raise the coercion error when the
  coercion fails and \<^verbatim>\<open>AttributeError\<close> otherwise.  Every one of these calls raises
  before any assignment to the table, so the table is left as it was (an exception is
  the value \<open>Inl\<close>, which carries no new table).
\<close>

theorem frozen_table_rejects_mutation:
  "(freeze tbl = Inr ft \<longrightarrow>
       table_eq ft tbl \<and> data ft = PyTuple (items (data tbl)) \<and> frozen ft
     \<and> add_row_with ctor ft = Inl AttributeError
     \<and> clear ft = Inl AttributeError
     \<and> setattr upd ft = Inl AttributeError
     \<and> freeze ft = Inl AttributeError)
   \<and> (freeze rtbl = Inr rft \<longrightarrow>
       add_row rc rft args kwargs = Inl AttributeError
     \<and> append rc rft obj = Inl AttributeError)
   \<and> (freeze etbl = Inr eft \<longrightarrow>
       unset_bitflag eft flag = Inl AttributeError
     \<and> add_int_row K eft args kwargs =
         (case coerce_args args of
            Inl e \<Rightarrow> Inl e
          | Inr args' \<Rightarrow> (case coerce_kwargs kwargs of Inl e \<Rightarrow> Inl e | Inr kwargs' \<Rightarrow> Inl AttributeError))
     \<and> IEdgeTable_append K eft obj =
         (case coerce_kwargs
                 (filter (\<lambda>(k, v). k \<in> set (annotations (IEdgeTableRow_class K))) (from_tskit obj)) of
            Inl e \<Rightarrow> Inl e
          | Inr kwargs' \<Rightarrow> Inl AttributeError))"
proof -
  have A: "freeze tbl = Inr ft \<longrightarrow>
       table_eq ft tbl \<and> data ft = PyTuple (items (data tbl)) \<and> frozen ft
     \<and> add_row_with ctor ft = Inl AttributeError
     \<and> clear ft = Inl AttributeError
     \<and> setattr upd ft = Inl AttributeError
     \<and> freeze ft = Inl AttributeError"
    by (auto dest!: freeze_Inr simp: table_eq_def add_row_with_def clear_def setattr_def freeze_def)
  have B: "freeze rtbl = Inr rft \<longrightarrow>
       add_row rc rft args kwargs = Inl AttributeError
     \<and> append rc rft obj = Inl AttributeError"
    by (auto dest!: freeze_Inr simp: add_row_def append_def add_row_with_def)
  have C: "freeze etbl = Inr eft \<longrightarrow>
       unset_bitflag eft flag = Inl AttributeError
     \<and> add_int_row K eft args kwargs =
         (case coerce_args args of
            Inl e \<Rightarrow> Inl e
          | Inr args' \<Rightarrow> (case coerce_kwargs kwargs of Inl e \<Rightarrow> Inl e | Inr kwargs' \<Rightarrow> Inl AttributeError))
     \<and> IEdgeTable_append K eft obj =
         (case coerce_kwargs
                 (filter (\<lambda>(k, v). k \<in> set (annotations (IEdgeTableRow_class K))) (from_tskit obj)) of
            Inl e \<Rightarrow> Inl e
          | Inr kwargs' \<Rightarrow> Inl AttributeError)"
    by (auto dest!: freeze_Inr simp: unset_bitflag_def setattr_def add_int_row_def IEdgeTable_append_def
        coerce_args_Nil add_row_def add_row_with_def split: sum.splits)
  from A B C show ?thesis by blast
qed


lemma append_half_frozen:
  "IEdgeTable_append example_constants
       ((IEdgeTable_init example_constants)\<lparr>data := PyTuple [], frozen := True\<rparr>) fractional_edge_obj
     = Inl (NotIntegerError None (PFloat (1 / 2)))"
  by (simp add: IEdgeTable_append_def fractional_edge_obj_def from_tskit_def from_tskit_side_def
      dict_update_def IEdgeTableRow_class_def add_int_row_def coerce_args_def coerce_kwargs_def
      coerce_kwarg_def pcols_def is_integer_def)

lemma freeze_new_edge_table:
  "freeze (IEdgeTable_init example_constants :: pyrow IEdgeTable)
     = Inr ((IEdgeTable_init example_constants)\<lparr>data := PyTuple [], frozen := True\<rparr>)"
  by (simp add: freeze_def setattr_def IEdgeTable_init_def)

text \<open>
  C6 as stated fails for the edge table's \<^verbatim>\<open>append\<close>: on a frozen edge table,
  appending a mapping whose \<^verbatim>\<open>left\<close> is 0.5 raises the not-an-integer error of
  \<^verbatim>\<open>_check_int\<close>, not the error of a frozen table.
\<close>

theorem frozen_append_raises_coercion_error:
  "freeze (IEdgeTable_init example_constants :: pyrow IEdgeTable)
     = Inr ((IEdgeTable_init example_constants)\<lparr>data := PyTuple [], frozen := True\<rparr>)
   \<and> IEdgeTable_append example_constants
       ((IEdgeTable_init example_constants)\<lparr>data := PyTuple [], frozen := True\<rparr>) fractional_edge_obj
     = Inl (NotIntegerError None (PFloat (1 / 2)))
   \<and> NotIntegerError None (PFloat (1 / 2)) \<noteq> AttributeError"
  by (simp add: freeze_new_edge_table append_half_frozen)

theorem frozen_table_rejects_mutation_witness:
  "clear ((IEdgeTable_init example_constants :: pyrow IEdgeTable)\<lparr>data := PyTuple [], frozen := True\<rparr>)
     = Inl AttributeError
   \<and> add_row (IEdgeTableRow_class example_constants)
        ((IEdgeTable_init example_constants)\<lparr>data := PyTuple [], frozen := True\<rparr>)
        [PInt 0, PInt 10, PInt 0, PInt 10] [(''child'', PInt 0), (''parent'', PInt 1)]
     = Inl AttributeError
   \<and> unset_bitflag ((IEdgeTable_init example_constants :: pyrow IEdgeTable)\<lparr>data := PyTuple [], frozen := True\<rparr>) 2
     = Inl AttributeError"
  using frozen_table_rejects_mutation[where
      tbl = "IEdgeTable_init example_constants :: pyrow IEdgeTable"
      and ft = "(IEdgeTable_init example_constants)\<lparr>data := PyTuple [], frozen := True\<rparr>"
      and rtbl = "IEdgeTable_init example_constants :: pyrow IEdgeTable"
      and rft = "(IEdgeTable_init example_constants)\<lparr>data := PyTuple [], frozen := True\<rparr>"
      and rc = "IEdgeTableRow_class example_constants"
      and args = "[PInt 0, PInt 10, PInt 0, PInt 10]"
      and kwargs = "[(''child'', PInt 0), (''parent'', PInt 1)]"
      and etbl = "IEdgeTable_init example_constants"
      and eft = "(IEdgeTable_init example_constants)\<lparr>data := PyTuple [], frozen := True\<rparr>"
      and flag = 2]
    freeze_new_edge_table
  by blast

subsection \<open>What sort does\<close>

lemma map_err_of_list_all2:
  "list_all2 (\<lambda>x y. f x = Inr y) xs ys \<Longrightarrow> map_err f xs = Inr ys"
  by (induction rule: list_all2_induct) auto

lemma list_all2_map_nth:
  assumes "list_all2 P xs ys" and "\<forall>i \<in> set order. i < length xs"
  shows "list_all2 P (map (nth xs) order) (map (nth ys) order)"
  using assms by (auto simp: list_all2_conv_all_nth)

lemma np_take_length: "np_take a idx = Inr ys \<Longrightarrow> length ys = length idx"
  unfolding np_take_def by (drule map_err_Inr) (simp add: list_all2_lengthD)

lemma np_take_map_nth:
  assumes "np_take a idx = Inr ys" and "\<forall>i \<in> set order. i < length idx"
  shows "np_take a (map (nth idx) order) = Inr (map (nth ys) order)"
  unfolding np_take_def
  by (rule map_err_of_list_all2, rule list_all2_map_nth)
     (use assms in \<open>auto simp: np_take_def dest: map_err_Inr\<close>)

lemma add_typed_row_list:
  "data tbl = PyList xs \<Longrightarrow>
     add_typed_row tbl r = Inr (tbl\<lparr>data := PyList (xs @ [r])\<rparr>, length xs)"
  by (simp add: add_typed_row_def add_row_with_def)

lemma append_rows_list:
  "data tbl = PyList xs \<Longrightarrow> append_rows tbl rs = Inr (tbl\<lparr>data := PyList (xs @ rs)\<rparr>)"
proof (induction rs arbitrary: tbl xs)
  case Nil
  then show ?case by (simp add: append_rows_def)
next
  case (Cons r rs)
  have "data (tbl\<lparr>data := PyList (xs @ [r])\<rparr>) = PyList (xs @ [r])" by simp
  from Cons.IH[OF this] Cons.prems show ?case
    by (simp add: append_rows_def IEdgeTable_append_row_def add_typed_row_list)
qed

lemma append_rows_new:
  "append_rows (IEdgeTable_init K) rs = Inr ((IEdgeTable_init K)\<lparr>data := PyList rs\<rparr>)"
  using append_rows_list[of "IEdgeTable_init K" "[]" rs] by (simp add: IEdgeTable_init_def)

lemma lexsort_set: "set (lexsort k1 k2 k3) = {..<length k3}"
  by (auto simp: lexsort_def)

lemma lexsort_mset:
  "length k3 = length rows \<Longrightarrow> mset (map (nth rows) (lexsort k1 k2 k3)) = mset rows"
proof -
  assume l: "length k3 = length rows"
  have "mset (map (nth rows) (lexsort k1 k2 k3)) = image_mset (nth rows) (mset (lexsort k1 k2 k3))"
    by simp
  also have "\<dots> = image_mset (nth rows) (mset [0..<length rows])"
    by (simp add: lexsort_def l)
  also have "\<dots> = mset (map (nth rows) [0..<length rows])" by simp
  also have "\<dots> = mset rows" by (simp add: map_nth)
  finally show ?thesis .
qed

lemma Tables_sort_empty: "len (iedges t) = 0 \<Longrightarrow> Tables_sort K t = Inr t"
  by (simp add: Tables_sort_def)

lemma Tables_sort_Inr:
  assumes "Tables_sort K t = Inr t'" and "len (iedges t) \<noteq> 0"
  shows "\<exists>child_times.
      np_take (map time (items (data (nodes t)))) (map child (items (data (iedges t)))) = Inr child_times
    \<and> \<not> tables_frozen t
    \<and> t' = t\<lparr>iedges := (IEdgeTable_init K)\<lparr>data := PyList
          (map (nth (items (data (iedges t))))
             (lexsort (map child_left (items (data (iedges t)))) (map child (items (data (iedges t))))
                (map uminus child_times)))\<rparr>\<rparr>"
  using assms
  by (auto simp: Tables_sort_def Let_def append_rows_new Tables_setattr_def split: sum.splits if_splits)

lemma Tables_sort_frame:
  assumes "Tables_sort K t = Inr t'"
  shows "nodes t' = nodes t \<and> individuals t' = individuals t \<and> time_units t' = time_units t
    \<and> tables_frozen t' = tables_frozen t
    \<and> mset (items (data (iedges t'))) = mset (items (data (iedges t)))
    \<and> flags (iedges t') = (if len (iedges t) = 0 then flags (iedges t) else VALID_GIG K)"
proof (cases "len (iedges t) = 0")
  case True
  with assms show ?thesis by (simp add: Tables_sort_empty)
next
  case False
  from Tables_sort_Inr[OF assms False] obtain cts where
    c: "np_take (map time (items (data (nodes t)))) (map child (items (data (iedges t)))) = Inr cts"
    and t': "t' = t\<lparr>iedges := (IEdgeTable_init K)\<lparr>data := PyList
          (map (nth (items (data (iedges t))))
             (lexsort (map child_left (items (data (iedges t)))) (map child (items (data (iedges t))))
                (map uminus cts)))\<rparr>\<rparr>"
    by blast
  have "length (map uminus cts) = length (items (data (iedges t)))"
    using np_take_length[OF c] by simp
  from lexsort_mset[OF this] t' False show ?thesis
    by (simp add: IEdgeTable_init_def)
qed

lemma sort_keys_map_nth:
  "\<forall>i \<in> set order. i < length rows \<Longrightarrow> length cts = length rows \<Longrightarrow>
     zip (map uminus (map (nth cts) order))
       (zip (map child (map (nth rows) order)) (map child_left (map (nth rows) order)))
     = map (\<lambda>i. (map uminus cts ! i, map child rows ! i, map child_left rows ! i)) order"
  by (induction order) auto

lemma Tables_sort_sorted:
  assumes "Tables_sort K t = Inr t'" and "len (iedges t) \<noteq> 0"
  shows "\<exists>ks. sort_keys t' = Inr ks \<and> sorted ks"
proof -
  let ?rows = "items (data (iedges t))"
  let ?times = "map time (items (data (nodes t)))"
  from Tables_sort_Inr[OF assms] obtain cts where
    c: "np_take ?times (map child ?rows) = Inr cts"
    and t': "t' = t\<lparr>iedges := (IEdgeTable_init K)\<lparr>data := PyList
          (map (nth ?rows) (lexsort (map child_left ?rows) (map child ?rows) (map uminus cts)))\<rparr>\<rparr>"
    by blast
  let ?order = "lexsort (map child_left ?rows) (map child ?rows) (map uminus cts)"
  let ?key = "\<lambda>i. (map uminus cts ! i, map child ?rows ! i, map child_left ?rows ! i)"
  have len: "length cts = length ?rows" using np_take_length[OF c] by simp
  have inr: "\<forall>i \<in> set ?order. i < length ?rows"
    by (simp add: lexsort_set len)
  then have inr': "\<forall>i \<in> set ?order. i < length (map child ?rows)" by simp
  have m: "map child (map (nth ?rows) ?order) = map (nth (map child ?rows)) ?order"
    using inr by simp
  have take: "np_take ?times (map child (map (nth ?rows) ?order)) = Inr (map (nth cts) ?order)"
    unfolding m by (rule np_take_map_nth[OF c inr'])
  have keys: "zip (map uminus (map (nth cts) ?order))
                (zip (map child (map (nth ?rows) ?order)) (map child_left (map (nth ?rows) ?order)))
              = map ?key ?order"
    by (rule sort_keys_map_nth[OF inr len])
  have "sorted (map ?key ?order)"
    unfolding lexsort_def by (rule sorted_sort_key)
  with take keys t' show ?thesis
    by (simp add: sort_keys_def Let_def IEdgeTable_init_def)
qed

subsection \<open>What decapitate does\<close>

lemma valid_ref_mono: "valid_ref K n v \<Longrightarrow> n \<le> m \<Longrightarrow> valid_ref K m v"
  by (auto simp: valid_ref_def split: if_splits)

lemma valid_ref_Suc: "valid_ref K n v \<Longrightarrow> valid_ref K (Suc n) v"
  by (auto simp: valid_ref_def split: if_splits)

lemma valid_ref_NULL: "valid_ref K n (NULL K)"
  by (simp add: valid_ref_def)

lemma valid_ref_new: "valid_ref K (Suc n) (int n)"
  by (simp add: valid_ref_def)

lemma survives_snoc:
  "survives cutoff (pre @ [nd]) u =
     (survives cutoff pre u \<or> (u = int (length pre) \<and> time nd < cutoff))"
  by (auto simp: survives_def nth_append)

lemma new_node_id_snoc:
  "u \<le> int (length pre) \<Longrightarrow> new_node_id cutoff (pre @ [nd]) u = new_node_id cutoff pre u"
  by (simp add: new_node_id_def)

lemma new_node_id_length:
  "new_node_id cutoff pre (int (length pre)) = int (length (filter (\<lambda>nd. time nd < cutoff) pre))"
  by (simp add: new_node_id_def)

lemma decap_individual_inv:
  assumes "decap_individual K indiv i (inds, imap) = Inr (inds', imap')"
    and "data inds = PyList is" and "\<not> frozen inds"
    and "\<forall>j v. imap j = Some v \<longrightarrow> valid_ref K (length is) v"
    and "list_all (\<lambda>ind. list_all (valid_ref K (length is)) (parents ind)) is"
  shows "\<exists>is'. data inds' = PyList is' \<and> \<not> frozen inds' \<and> length is \<le> length is'
    \<and> (\<forall>j v. imap' j = Some v \<longrightarrow> valid_ref K (length is') v)
    \<and> list_all (\<lambda>ind. list_all (valid_ref K (length is')) (parents ind)) is'
    \<and> imap' i \<noteq> None"
proof (cases "imap i = None")
  case False
  with assms show ?thesis by (auto simp: decap_individual_def)
next
  case True
  let ?row = "\<lparr>parents = map (\<lambda>j. map_get imap j (NULL K)) (parents indiv)\<rparr>"
  from True assms(1,2) have inds': "inds' = inds\<lparr>data := PyList (is @ [?row])\<rparr>"
    and imap': "imap' = imap(i \<mapsto> int (length is))"
    by (auto simp: decap_individual_def add_typed_row_list)
  have row_ok: "list_all (valid_ref K (Suc (length is))) (parents ?row)"
  proof -
    have "valid_ref K (Suc (length is)) (map_get imap j (NULL K))" for j
      using assms(4) valid_ref_mono[of K "length is" _ "Suc (length is)"]
      by (cases "imap j") (auto simp: map_get_def valid_ref_NULL)
    then show ?thesis by (simp add: list_all_iff)
  qed
  have old_ok: "list_all (\<lambda>ind. list_all (valid_ref K (Suc (length is))) (parents ind)) is"
    using assms(5) by (auto simp: list_all_iff intro: valid_ref_Suc)
  have map_ok: "\<forall>j v. imap' j = Some v \<longrightarrow> valid_ref K (Suc (length is)) v"
    using assms(4) by (auto simp: imap' valid_ref_new intro: valid_ref_Suc)
  from inds' imap' row_ok old_ok map_ok assms(3) show ?thesis
    by (intro exI[of _ "is @ [?row]"]) simp
qed

lemma decap_node_inv:
  assumes inv: "decap_inv K cutoff pre st"
    and step: "decap_node K cutoff t (length pre, nd) st = Inr st'"
  shows "decap_inv K cutoff (pre @ [nd]) st'"
proof (cases "time nd < cutoff")
  case False
  with step have "st' = st" by (auto simp: decap_node_def split: prod.splits)
  moreover have "(if survives cutoff (pre @ [nd]) u
        then Some (new_node_id cutoff (pre @ [nd]) u) else None)
      = (if survives cutoff pre u then Some (new_node_id cutoff pre u) else None)" for u
  proof -
    have "survives cutoff pre u \<Longrightarrow> u \<le> int (length pre)" by (simp add: survives_def)
    then show ?thesis using False by (auto simp: survives_snoc new_node_id_snoc)
  qed
  ultimately show ?thesis
    using inv False by (simp add: decap_inv_def split: prod.splits)
next
  case True
  obtain inds imap nds nmap where st: "st = (inds, imap, nds, nmap)" by (cases st) auto
  from inv st obtain "is" ns where
    fi: "\<not> frozen inds" and fn: "\<not> frozen nds"
    and di: "data inds = PyList is" and dn: "data nds = PyList ns"
    and tm: "map time ns = map time (filter (\<lambda>nd. time nd < cutoff) pre)"
    and fl: "map node_flags ns = map node_flags (filter (\<lambda>nd. time nd < cutoff) pre)"
    and nm: "\<forall>u. nmap u = (if survives cutoff pre u then Some (new_node_id cutoff pre u) else None)"
    and im: "\<forall>i v. imap i = Some v \<longrightarrow> valid_ref K (length is) v"
    and pi: "list_all (\<lambda>ind. list_all (valid_ref K (length is)) (parents ind)) is"
    and ni: "list_all (\<lambda>nd. valid_ref K (length is) (individual nd)) ns"
    by (auto simp: decap_inv_def)
  from step True st obtain indiv inds' imap' v where
    g: "getitem (individuals t) (individual nd) = Inr indiv"
    and d: "decap_individual K indiv (individual nd) (inds, imap) = Inr (inds', imap')"
    and v: "imap' (individual nd) = Some v"
    by (auto simp: decap_node_def split: sum.splits option.splits prod.splits)
  from decap_individual_inv[OF d di fi im pi] obtain is' where
    di': "data inds' = PyList is'" and fi': "\<not> frozen inds'" and le: "length is \<le> length is'"
    and im': "\<forall>j v. imap' j = Some v \<longrightarrow> valid_ref K (length is') v"
    and pi': "list_all (\<lambda>ind. list_all (valid_ref K (length is')) (parents ind)) is'"
    by blast
  let ?row = "\<lparr>time = time nd, node_flags = node_flags nd, individual = v\<rparr>"
  from step True st g d v dn have st': "st' = (inds', imap', nds\<lparr>data := PyList (ns @ [?row])\<rparr>,
      nmap(int (length pre) \<mapsto> int (length ns)))"
    by (simp add: decap_node_def add_typed_row_list)
  have lens: "length ns = length (filter (\<lambda>nd. time nd < cutoff) pre)"
    using tm by (metis length_map)
  have nm': "\<forall>u. (nmap(int (length pre) \<mapsto> int (length ns))) u =
      (if survives cutoff (pre @ [nd]) u then Some (new_node_id cutoff (pre @ [nd]) u) else None)"
  proof
    fix u
    show "(nmap(int (length pre) \<mapsto> int (length ns))) u =
      (if survives cutoff (pre @ [nd]) u then Some (new_node_id cutoff (pre @ [nd]) u) else None)"
    proof (cases "u = int (length pre)")
      case True
      with \<open>time nd < cutoff\<close> show ?thesis
        by (simp add: survives_snoc new_node_id_snoc new_node_id_length lens)
    next
      case False
      have "survives cutoff pre u \<Longrightarrow> u \<le> int (length pre)" by (simp add: survives_def)
      with False nm show ?thesis
        by (auto simp: survives_snoc new_node_id_snoc)
    qed
  qed
  have ni': "list_all (\<lambda>nd. valid_ref K (length is') (individual nd)) (ns @ [?row])"
    using ni le im' v valid_ref_mono[of K "length is" _ "length is'"]
    by (auto simp: list_all_iff)
  from st' fi' fn di' tm fl nm' im' pi' ni' True show ?thesis
    by (simp add: decap_inv_def)
qed

lemma decap_nodes_inv:
  "decap_inv K cutoff pre st \<Longrightarrow>
   fold_err (decap_node K cutoff t) (zip [length pre..<length pre + length rs] rs) st = Inr st' \<Longrightarrow>
   decap_inv K cutoff (pre @ rs) st'"
proof (induction rs arbitrary: pre st)
  case Nil
  then show ?case by simp
next
  case (Cons r rs)
  have z: "zip [length pre..<length pre + length (r # rs)] (r # rs)
      = (length pre, r) # zip [length (pre @ [r])..<length (pre @ [r]) + length rs] rs"
    by (simp del: upt_Suc add: upt_conv_Cons)
  from Cons.prems(2) obtain st1 where
    s1: "decap_node K cutoff t (length pre, r) st = Inr st1"
    and s2: "fold_err (decap_node K cutoff t)
        (zip [length (pre @ [r])..<length (pre @ [r]) + length rs] rs) st1 = Inr st'"
    unfolding z by (auto split: sum.splits)
  from Cons.IH[OF decap_node_inv[OF Cons.prems(1) s1] s2] show ?case by simp
qed

lemma decap_inv_init:
  "decap_inv K cutoff [] (BaseTable_init, [NULL K \<mapsto> NULL K], BaseTable_init, Map.empty)"
  by (simp add: decap_inv_def BaseTable_init_def survives_def valid_ref_NULL)


lemma decap_edge_skip: "nmap (parent e) = None \<Longrightarrow> decap_edge K nmap e tbl = Inr tbl"
  by (simp add: decap_edge_def)

lemma decap_edge_KeyError:
  "nmap (parent e) = Some p \<Longrightarrow> nmap (child e) = None \<Longrightarrow> decap_edge K nmap e tbl = Inl KeyError"
  by (simp add: decap_edge_def)

lemma decap_edge_keep:
  "nmap (parent e) = Some (f (parent e)) \<Longrightarrow> nmap (child e) = Some (f (child e)) \<Longrightarrow>
   data tbl = PyList xs \<Longrightarrow>
   decap_edge K nmap e tbl = Inr (tbl\<lparr>data := PyList (xs @ [remap_edge K f e])\<rparr>)"
  by (simp add: decap_edge_def add_typed_row_list remap_edge_def)

lemma decap_edges:
  assumes "fold_err (decap_edge K nmap) es tbl = Inr tbl'" and "data tbl = PyList xs"
    and nm: "\<forall>u. nmap u = (if S u then Some (f u) else None)"
  shows "tbl' = tbl\<lparr>data := PyList (xs @ map (remap_edge K f) (filter (\<lambda>e. S (parent e)) es))\<rparr>
    \<and> list_all (\<lambda>e. S (child e)) (filter (\<lambda>e. S (parent e)) es)"
  using assms(1,2)
proof (induction es arbitrary: tbl xs)
  case Nil
  then show ?case by simp
next
  case (Cons e es)
  show ?case
  proof (cases "S (parent e)")
    case False
    then have "nmap (parent e) = None" using nm by simp
    from decap_edge_skip[of nmap e, OF this] Cons.prems(1)
    have "fold_err (decap_edge K nmap) es tbl = Inr tbl'" by simp
    from Cons.IH[OF this Cons.prems(2)] False show ?thesis by simp
  next
    case True
    then have p: "nmap (parent e) = Some (f (parent e))" using nm by simp
    have c: "S (child e)"
    proof (rule ccontr)
      assume "\<not> S (child e)"
      then have "nmap (child e) = None" using nm by simp
      from decap_edge_KeyError[of nmap e, OF p this] Cons.prems(1) show False by simp
    qed
    then have c': "nmap (child e) = Some (f (child e))" using nm by simp
    let ?tbl1 = "tbl\<lparr>data := PyList (xs @ [remap_edge K f e])\<rparr>"
    from decap_edge_keep[of nmap e f, OF p c' Cons.prems(2)] Cons.prems(1)
    have "fold_err (decap_edge K nmap) es ?tbl1 = Inr tbl'" by simp
    from Cons.IH[OF this, of "xs @ [remap_edge K f e]"] True c show ?thesis by simp
  qed
qed

lemma decapitate_result:
  assumes "decapitate K t cutoff = Inr t'"
  shows "\<exists>is ns.
      data (nodes t') = PyList ns \<and> data (individuals t') = PyList is
    \<and> \<not> tables_frozen t' \<and> time_units t' = time_units t
    \<and> map time ns = map time (filter (\<lambda>nd. time nd < cutoff) (items (data (nodes t))))
    \<and> map node_flags ns = map node_flags (filter (\<lambda>nd. time nd < cutoff) (items (data (nodes t))))
    \<and> list_all (\<lambda>nd. valid_ref K (length is) (individual nd)) ns
    \<and> list_all (\<lambda>ind. list_all (valid_ref K (length is)) (parents ind)) is
    \<and> mset (items (data (iedges t')))
        = mset (map (remap_edge K (new_node_id cutoff (items (data (nodes t)))))
                 (filter (\<lambda>e. survives cutoff (items (data (nodes t))) (parent e))
                    (items (data (iedges t)))))
    \<and> list_all (\<lambda>e. survives cutoff (items (data (nodes t))) (child e))
          (filter (\<lambda>e. survives cutoff (items (data (nodes t))) (parent e))
             (items (data (iedges t))))
    \<and> flags (iedges t') = VALID_GIG K"
proof -
  let ?rows = "items (data (nodes t))"
  let ?S = "survives cutoff ?rows"
  let ?f = "new_node_id cutoff ?rows"
  from assms obtain inds imap nds nmap ies t3 where
    l1: "fold_err (decap_node K cutoff t) (zip [0..<length ?rows] ?rows)
           (BaseTable_init, [NULL K \<mapsto> NULL K], BaseTable_init, Map.empty)
         = Inr (inds, imap, nds, nmap)"
    and l2: "fold_err (decap_edge K nmap) (items (data (iedges t))) (IEdgeTable_init K) = Inr ies"
    and nf: "\<not> tables_frozen t"
    and t3: "t3 = t\<lparr>nodes := nds, iedges := ies, individuals := inds\<rparr>"
    and srt: "Tables_sort K t3 = Inr t'"
    by (auto simp: decapitate_def Let_def Tables_setattr_def split: sum.splits prod.splits if_splits)
  have "decap_inv K cutoff ([] @ ?rows) (inds, imap, nds, nmap)"
    by (rule decap_nodes_inv[OF decap_inv_init]) (use l1 in simp)
  then obtain "is" ns where
    di: "data inds = PyList is" and dn: "data nds = PyList ns"
    and tm: "map time ns = map time (filter (\<lambda>nd. time nd < cutoff) ?rows)"
    and fl: "map node_flags ns = map node_flags (filter (\<lambda>nd. time nd < cutoff) ?rows)"
    and nm: "\<forall>u. nmap u = (if ?S u then Some (?f u) else None)"
    and pi: "list_all (\<lambda>ind. list_all (valid_ref K (length is)) (parents ind)) is"
    and ni: "list_all (\<lambda>nd. valid_ref K (length is) (individual nd)) ns"
    by (auto simp: decap_inv_def)
  have "data (IEdgeTable_init K :: IEdgeTableRow IEdgeTable) = PyList []"
    by (simp add: IEdgeTable_init_def)
  from decap_edges[OF l2 this nm] have
    ies: "ies = (IEdgeTable_init K)\<lparr>data := PyList
        (map (remap_edge K ?f) (filter (\<lambda>e. ?S (parent e)) (items (data (iedges t)))))\<rparr>"
    and ch: "list_all (\<lambda>e. ?S (child e)) (filter (\<lambda>e. ?S (parent e)) (items (data (iedges t))))"
    by simp_all
  from Tables_sort_frame[OF srt] t3 have
    "nodes t' = nds" "individuals t' = inds" "time_units t' = time_units t"
    "tables_frozen t' = tables_frozen t"
    "mset (items (data (iedges t'))) = mset (items (data ies))"
    "flags (iedges t') = (if len ies = 0 then flags ies else VALID_GIG K)"
    by simp_all
  moreover have "flags ies = VALID_GIG K" by (simp add: ies IEdgeTable_init_def)
  moreover have "items (data ies)
      = map (remap_edge K ?f) (filter (\<lambda>e. ?S (parent e)) (items (data (iedges t))))"
    by (simp add: ies)
  ultimately show ?thesis
    using di dn tm fl pi ni ch nf by auto
qed

subsection \<open>An example of decapitate\<close>

lemma family_node_loop:
  "fold_err (decap_node example_constants (3 / 2) family)
      (zip [0..<3] (items (data (nodes family))))
      (BaseTable_init, [NULL example_constants \<mapsto> NULL example_constants], BaseTable_init, Map.empty)
   = Inr (BaseTable_init\<lparr>data := PyList [\<lparr>parents = [- 1]\<rparr>, \<lparr>parents = [0, - 1]\<rparr>]\<rparr>,
          [- 1 \<mapsto> - 1, 0 \<mapsto> 0, 1 \<mapsto> 1],
          BaseTable_init\<lparr>data := PyList [\<lparr>time = 1, node_flags = 0, individual = 0\<rparr>,
                                           \<lparr>time = 0, node_flags = 1, individual = 1\<rparr>]\<rparr>,
          [0 \<mapsto> 0, 1 \<mapsto> 1])"
  by (simp add: family_def Tables_of_def Tables_init_def BaseTable_init_def upt_conv_Cons
      decap_node_def getitem_def py_getitem_def decap_individual_def add_typed_row_def
      add_row_with_def map_get_def example_constants_def)

lemma decapitate_family: "decapitate example_constants family (3 / 2) = Inr family_decapitated"
proof -
  have n: "length (items (data (nodes family))) = 3"
    by (simp add: family_def Tables_of_def)
  have e: "fold_err (decap_edge example_constants [0 \<mapsto> 0, 1 \<mapsto> 1]) (items (data (iedges family)))
        (IEdgeTable_init example_constants)
      = Inr ((IEdgeTable_init example_constants)\<lparr>data := PyList
          [\<lparr>child_left = 0, child_right = 10, parent_left = 0, parent_right = 10,
            child = 1, parent = 0, edge = - 1, child_chromosome = - 1, parent_chromosome = - 1\<rparr>]\<rparr>)"
    by (simp add: family_def Tables_of_def IEdgeTable_init_def decap_edge_def add_typed_row_def
        add_row_with_def example_constants_def)
  show ?thesis
    apply (simp only: decapitate_def Let_def n family_node_loop sum.case prod.case e)
    apply (simp add: Tables_setattr_def family_def family_decapitated_def Tables_of_def Tables_init_def
        Tables_sort_def len_def np_take_def py_getitem_def lexsort_def append_rows_def
        IEdgeTable_append_row_def add_typed_row_def add_row_with_def IEdgeTable_init_def
        BaseTable_init_def)
    done
qed


subsection \<open>Containment after decapitate\<close>

lemma rank_less:
  "u < length xs \<Longrightarrow> P (xs ! u) \<Longrightarrow> length (filter P (take u xs)) < length (filter P xs)"
proof -
  assume u: "u < length xs" and p: "P (xs ! u)"
  have "filter P xs = filter P (take u xs) @ filter P (xs ! u # drop (Suc u) xs)"
    using id_take_nth_drop[OF u] by (metis filter_append)
  with p show ?thesis by simp
qed

lemma rank_nth:
  "u < length xs \<Longrightarrow> P (xs ! u) \<Longrightarrow> filter P xs ! length (filter P (take u xs)) = xs ! u"
proof -
  assume u: "u < length xs" and p: "P (xs ! u)"
  have "filter P xs = filter P (take u xs) @ filter P (xs ! u # drop (Suc u) xs)"
    using id_take_nth_drop[OF u] by (metis filter_append)
  with p show ?thesis by (simp add: nth_append)
qed

lemma rank_mono:
  assumes "u < v" and "v \<le> length xs" and "P (xs ! u)"
  shows "length (filter P (take u xs)) < length (filter P (take v xs))"
proof -
  have "length (filter P (take u (take v xs))) < length (filter P (take v xs))"
    using assms by (intro rank_less) simp_all
  moreover have "take u (take v xs) = take u xs" using assms(1) by (simp add: min_def)
  ultimately show ?thesis by simp
qed

lemma new_node_id_bounds:
  assumes "survives cutoff ns u"
  shows "0 \<le> new_node_id cutoff ns u
    \<and> new_node_id cutoff ns u < int (length (filter (\<lambda>nd. time nd < cutoff) ns))
    \<and> filter (\<lambda>nd. time nd < cutoff) ns ! nat (new_node_id cutoff ns u) = ns ! nat u"
proof -
  from assms have u: "nat u < length ns" and p: "time (ns ! nat u) < cutoff"
    by (auto simp: survives_def nat_less_iff)
  from rank_less[of "nat u" ns "\<lambda>nd. time nd < cutoff", OF u p]
    rank_nth[of "nat u" ns "\<lambda>nd. time nd < cutoff", OF u p]
  show ?thesis by (simp add: new_node_id_def)
qed

lemma new_node_id_mono:
  assumes "survives cutoff ns u" and "survives cutoff ns v" and "u < v"
  shows "new_node_id cutoff ns u < new_node_id cutoff ns v"
proof -
  from assms have uv: "nat u < nat v" and v: "nat v \<le> length ns"
    and p: "time (ns ! nat u) < cutoff"
    by (auto simp: survives_def)
  from rank_mono[of "nat u" "nat v" ns "\<lambda>nd. time nd < cutoff", OF uv v p]
  show ?thesis by (simp add: new_node_id_def)
qed

lemma valid_ref_iff: "valid_ref K n v \<longleftrightarrow> v = NULL K \<or> (0 \<le> v \<and> v < int n)"
  by (simp add: valid_ref_def)

text \<open>
  C7.  If \<^verbatim>\<open>decapitate(t)\<close> returns normally, then in the resulting aggregate every
  node has time below the cutoff; the edge rows are, up to the order \<^verbatim>\<open>sort\<close> gives them,
  the rows built from exactly the edges whose parent id indexes a node with time below the
  cutoff, with both endpoints rewritten by the renumbering; both endpoints of every edge
  index the new node table; the renumbering sends each surviving node to a row of the new
  table with its time and preserves the order of the ids; and every parent reference of
  every individual is the null sentinel or indexes the new individual table.
\<close>

theorem decapitate_containment:
  assumes "decapitate K t cutoff = Inr t'"
  shows "(\<forall>nd \<in> set (items (data (nodes t'))). time nd < cutoff)
    \<and> mset (items (data (iedges t')))
        = mset (map (remap_edge K (new_node_id cutoff (items (data (nodes t)))))
                 (filter (\<lambda>e. survives cutoff (items (data (nodes t))) (parent e))
                    (items (data (iedges t)))))
    \<and> (\<forall>e \<in> set (items (data (iedges t'))).
          0 \<le> child e \<and> child e < int (len (nodes t'))
        \<and> 0 \<le> parent e \<and> parent e < int (len (nodes t')))
    \<and> (\<forall>u. survives cutoff (items (data (nodes t))) u \<longrightarrow>
          0 \<le> new_node_id cutoff (items (data (nodes t))) u
        \<and> new_node_id cutoff (items (data (nodes t))) u < int (len (nodes t'))
        \<and> time (items (data (nodes t')) ! nat (new_node_id cutoff (items (data (nodes t))) u))
            = time (items (data (nodes t)) ! nat u))
    \<and> (\<forall>u v. survives cutoff (items (data (nodes t))) u
          \<and> survives cutoff (items (data (nodes t))) v \<and> u < v \<longrightarrow>
          new_node_id cutoff (items (data (nodes t))) u
            < new_node_id cutoff (items (data (nodes t))) v)
    \<and> (\<forall>ind \<in> set (items (data (individuals t'))). \<forall>p \<in> set (parents ind).
          p = NULL K \<or> (0 \<le> p \<and> p < int (len (individuals t'))))"
proof -
  let ?rows = "items (data (nodes t))"
  let ?P = "\<lambda>nd. time nd < cutoff"
  let ?S = "survives cutoff ?rows"
  let ?f = "new_node_id cutoff ?rows"
  let ?kept = "filter (\<lambda>e. ?S (parent e)) (items (data (iedges t)))"
  from decapitate_result[OF assms] obtain "is" ns where
    dn: "data (nodes t') = PyList ns" and di: "data (individuals t') = PyList is"
    and tm: "map time ns = map time (filter ?P ?rows)"
    and pi: "list_all (\<lambda>ind. list_all (valid_ref K (length is)) (parents ind)) is"
    and ms: "mset (items (data (iedges t'))) = mset (map (remap_edge K ?f) ?kept)"
    and ch: "list_all (\<lambda>e. ?S (child e)) ?kept"
    by blast
  have len: "length ns = length (filter ?P ?rows)" using tm by (metis length_map)
  have 1: "\<forall>nd \<in> set ns. time nd < cutoff"
  proof
    fix nd assume "nd \<in> set ns"
    then have "time nd \<in> set (map time ns)" by simp
    then have "time nd \<in> set (map time (filter ?P ?rows))" by (simp only: tm)
    then show "time nd < cutoff" by auto
  qed
  have 3: "\<forall>e \<in> set (items (data (iedges t'))).
      0 \<le> child e \<and> child e < int (length ns) \<and> 0 \<le> parent e \<and> parent e < int (length ns)"
  proof
    fix e' assume "e' \<in> set (items (data (iedges t')))"
    moreover have "set (items (data (iedges t'))) = set (map (remap_edge K ?f) ?kept)"
      using ms by (rule mset_eq_setD)
    ultimately obtain e where e: "e \<in> set ?kept" and e': "e' = remap_edge K ?f e" by auto
    from e have p: "?S (parent e)" by simp
    from e ch have c: "?S (child e)" by (simp add: list_all_iff)
    from new_node_id_bounds[OF p] new_node_id_bounds[OF c] show
      "0 \<le> child e' \<and> child e' < int (length ns) \<and> 0 \<le> parent e' \<and> parent e' < int (length ns)"
      by (simp add: e' remap_edge_def len)
  qed
  have 4: "\<forall>u. ?S u \<longrightarrow> 0 \<le> ?f u \<and> ?f u < int (length ns)
      \<and> time (ns ! nat (?f u)) = time (?rows ! nat u)"
  proof (intro allI impI)
    fix u assume s: "?S u"
    from new_node_id_bounds[OF s] have b: "0 \<le> ?f u" "?f u < int (length ns)"
      and n: "filter ?P ?rows ! nat (?f u) = ?rows ! nat u"
      by (simp_all add: len)
    from b have k: "nat (?f u) < length ns" by simp
    have "time (ns ! nat (?f u)) = map time ns ! nat (?f u)" using k by simp
    also have "\<dots> = map time (filter ?P ?rows) ! nat (?f u)" by (simp only: tm)
    also have "\<dots> = time (filter ?P ?rows ! nat (?f u))" using k len by simp
    finally show "0 \<le> ?f u \<and> ?f u < int (length ns)
        \<and> time (ns ! nat (?f u)) = time (?rows ! nat u)"
      using b n by simp
  qed
  have 5: "\<forall>u v. ?S u \<and> ?S v \<and> u < v \<longrightarrow> ?f u < ?f v"
    using new_node_id_mono by blast
  have 6: "\<forall>ind \<in> set is. \<forall>p \<in> set (parents ind). p = NULL K \<or> (0 \<le> p \<and> p < int (length is))"
    using pi by (simp add: list_all_iff valid_ref_iff)
  from 1 ms 3 4 5 6 show ?thesis
    by (simp add: dn di len_def)
qed

text \<open>
  C10.  If \<^verbatim>\<open>decapitate(t)\<close> returns normally, every edge row of the result has
  \<^verbatim>\<open>edge\<close>, \<^verbatim>\<open>child_chromosome\<close> and \<^verbatim>\<open>parent_chromosome\<close> at the null sentinel,
  whatever the original edge carried, and takes from an original edge only the four
  coordinates and the two renumbered endpoints.
\<close>

theorem decapitate_resets_edge_fields:
  assumes "decapitate K t cutoff = Inr t'"
  shows "\<forall>e' \<in> set (items (data (iedges t'))).
      edge e' = NULL K \<and> child_chromosome e' = NULL K \<and> parent_chromosome e' = NULL K
    \<and> (\<exists>e \<in> set (items (data (iedges t))).
          child_left e' = child_left e \<and> child_right e' = child_right e
        \<and> parent_left e' = parent_left e \<and> parent_right e' = parent_right e
        \<and> child e' = new_node_id cutoff (items (data (nodes t))) (child e)
        \<and> parent e' = new_node_id cutoff (items (data (nodes t))) (parent e))"
proof
  let ?rows = "items (data (nodes t))"
  let ?kept = "filter (\<lambda>e. survives cutoff ?rows (parent e)) (items (data (iedges t)))"
  fix e' assume a: "e' \<in> set (items (data (iedges t')))"
  from decapitate_result[OF assms] have
    "mset (items (data (iedges t'))) = mset (map (remap_edge K (new_node_id cutoff ?rows)) ?kept)"
    by blast
  then have "set (items (data (iedges t'))) = set (map (remap_edge K (new_node_id cutoff ?rows)) ?kept)"
    by (rule mset_eq_setD)
  with a obtain e where "e \<in> set (items (data (iedges t)))"
    and "e' = remap_edge K (new_node_id cutoff ?rows) e" by auto
  then show "edge e' = NULL K \<and> child_chromosome e' = NULL K \<and> parent_chromosome e' = NULL K
    \<and> (\<exists>e \<in> set (items (data (iedges t))).
          child_left e' = child_left e \<and> child_right e' = child_right e
        \<and> parent_left e' = parent_left e \<and> parent_right e' = parent_right e
        \<and> child e' = new_node_id cutoff ?rows (child e)
        \<and> parent e' = new_node_id cutoff ?rows (parent e))"
    by (auto simp: remap_edge_def)
qed


theorem decapitate_containment_witness:
  "decapitate example_constants family (3 / 2) = Inr family_decapitated
   \<and> list_all (\<lambda>nd. time nd < 3 / 2) (items (data (nodes family_decapitated)))
   \<and> list_all (\<lambda>e. 0 \<le> child e \<and> child e < int (len (nodes family_decapitated))
                  \<and> 0 \<le> parent e \<and> parent e < int (len (nodes family_decapitated)))
        (items (data (iedges family_decapitated)))
   \<and> list_all (\<lambda>ind. list_all (\<lambda>p. p = NULL example_constants
                  \<or> (0 \<le> p \<and> p < int (len (individuals family_decapitated)))) (parents ind))
        (items (data (individuals family_decapitated)))"
  using decapitate_containment[OF decapitate_family] decapitate_family
  by (simp add: list_all_iff)

theorem decapitate_resets_edge_fields_witness:
  "decapitate example_constants family (3 / 2) = Inr family_decapitated
   \<and> map edge (items (data (iedges family))) = [7, 8]
   \<and> list_all (\<lambda>e'. edge e' = NULL example_constants
                  \<and> child_chromosome e' = NULL example_constants
                  \<and> parent_chromosome e' = NULL example_constants)
        (items (data (iedges family_decapitated)))"
proof -
  have "map edge (items (data (iedges family))) = [7, 8]"
    by (simp add: family_def Tables_of_def)
  with decapitate_resets_edge_fields[OF decapitate_family] decapitate_family show ?thesis
    by (simp add: list_all_iff)
qed

subsection \<open>The flag word\<close>

lemma unset_bitflag_Inr:
  "unset_bitflag tbl flag = Inr tbl1 \<Longrightarrow> \<not> frozen tbl \<and> tbl1 = tbl\<lparr>flags := flags tbl AND NOT flag\<rparr>"
  by (auto simp: unset_bitflag_def setattr_def split: if_splits)

lemma and_not_and: "(a AND NOT f) AND f = (0::int)"
  by (simp add: and.assoc)

lemma and_not_keeps_zero: "a AND f = (0::int) \<Longrightarrow> (a AND NOT g) AND f = 0"
proof -
  assume z: "a AND f = 0"
  have "(a AND NOT g) AND f = (a AND f) AND NOT g"
    by (simp add: ac_simps)
  with z show ?thesis by simp
qed

lemma add_row_with_flags: "add_row_with ctor tbl = Inr (tbl2, n) \<Longrightarrow> flags tbl2 = flags tbl"
  by (auto simp: add_row_with_def split: pyseq.splits sum.splits)

lemma clear_flags: "clear tbl = Inr tbl2 \<Longrightarrow> flags tbl2 = flags tbl"
  by (auto simp: clear_def setattr_def split: if_splits)

lemma freeze_flags: "freeze tbl = Inr tbl2 \<Longrightarrow> flags tbl2 = flags tbl"
  by (auto dest!: freeze_Inr)

lemma IEdgeTable_copy_flags: "flags (IEdgeTable_copy K tbl) = VALID_GIG K"
  by (simp add: IEdgeTable_copy_def IEdgeTable_init_def)

lemma Tables_copy_flags: "flags (iedges (Tables_copy K t)) = VALID_GIG K"
  by (simp add: Tables_copy_def IEdgeTable_copy_flags)

lemma decapitate_flags: "decapitate K t c = Inr t' \<Longrightarrow> flags (iedges t') = VALID_GIG K"
  using decapitate_result by blast

lemma Tables_sort_flags:
  "Tables_sort K t = Inr t' \<Longrightarrow>
     flags (iedges t') = (if len (iedges t) = 0 then flags (iedges t) else VALID_GIG K)"
  using Tables_sort_frame by blast

text \<open>
  What becomes of a cleared bit.  \<^verbatim>\<open>unset_bitflag\<close> clears the bit on the table object
  and leaves its rows alone, and the bit stays cleared under everything that works on that
  object: adding a row (by any of \<^verbatim>\<open>add_row\<close>, \<^verbatim>\<open>add_int_row\<close>, \<^verbatim>\<open>append\<close>),
  \<^verbatim>\<open>clear\<close>, \<^verbatim>\<open>freeze\<close>, clearing further bits, and \<^verbatim>\<open>sort()\<close> of an aggregate whose
  edge table is empty.  \<^verbatim>\<open>copy()\<close> of the table or of the aggregate, \<^verbatim>\<open>sort()\<close> on a
  non-empty edge table and \<^verbatim>\<open>decapitate()\<close> put a newly constructed edge table in its
  place, and the flag word of that table is the constructor's default, \<^verbatim>\<open>VALID_GIG\<close>,
  whatever the word of the table it replaces.
\<close>

lemma cleared_flag_lifetime:
  assumes "unset_bitflag tbl flag = Inr tbl1"
  shows "flags tbl1 AND flag = 0 \<and> data tbl1 = data tbl
    \<and> (\<forall>ctor tbl2 n. add_row_with ctor tbl1 = Inr (tbl2, n) \<longrightarrow> flags tbl2 = flags tbl1)
    \<and> (\<forall>tbl2. clear tbl1 = Inr tbl2 \<longrightarrow> flags tbl2 = flags tbl1)
    \<and> (\<forall>tbl2. freeze tbl1 = Inr tbl2 \<longrightarrow> flags tbl2 = flags tbl1)
    \<and> (\<forall>g tbl2. unset_bitflag tbl1 g = Inr tbl2 \<longrightarrow> flags tbl2 AND flag = 0)
    \<and> flags (IEdgeTable_copy K tbl1) = VALID_GIG K
    \<and> (\<forall>t. iedges t = tbl1 \<longrightarrow> flags (iedges (Tables_copy K t)) = VALID_GIG K)
    \<and> (\<forall>t t'. iedges t = tbl1 \<and> Tables_sort K t = Inr t' \<longrightarrow>
          flags (iedges t') = (if len tbl1 = 0 then flags tbl1 else VALID_GIG K))
    \<and> (\<forall>t c t'. iedges t = tbl1 \<and> decapitate K t c = Inr t' \<longrightarrow>
          flags (iedges t') = VALID_GIG K)"
proof -
  from unset_bitflag_Inr[OF assms] have t1: "tbl1 = tbl\<lparr>flags := flags tbl AND NOT flag\<rparr>"
    by simp
  then have z: "flags tbl1 AND flag = 0" and d: "data tbl1 = data tbl"
    by (simp_all add: and_not_and)
  have u: "\<forall>g tbl2. unset_bitflag tbl1 g = Inr tbl2 \<longrightarrow> flags tbl2 AND flag = 0"
    using z by (auto dest!: unset_bitflag_Inr simp: and_not_keeps_zero)
  have a: "\<forall>ctor tbl2 n. add_row_with ctor tbl1 = Inr (tbl2, n) \<longrightarrow> flags tbl2 = flags tbl1"
    using add_row_with_flags by blast
  have b: "\<forall>tbl2. clear tbl1 = Inr tbl2 \<longrightarrow> flags tbl2 = flags tbl1"
    using clear_flags by blast
  have c: "\<forall>tbl2. freeze tbl1 = Inr tbl2 \<longrightarrow> flags tbl2 = flags tbl1"
    using freeze_flags by blast
  have e: "flags (IEdgeTable_copy K tbl1) = VALID_GIG K"
    by (rule IEdgeTable_copy_flags)
  have f: "\<forall>t. iedges t = tbl1 \<longrightarrow> flags (iedges (Tables_copy K t)) = VALID_GIG K"
    by (simp add: Tables_copy_flags)
  have g: "\<forall>t t'. iedges t = tbl1 \<and> Tables_sort K t = Inr t' \<longrightarrow>
          flags (iedges t') = (if len tbl1 = 0 then flags tbl1 else VALID_GIG K)"
  proof (intro allI impI)
    fix t t' assume h: "iedges t = tbl1 \<and> Tables_sort K t = Inr t'"
    then have "Tables_sort K t = Inr t'" by simp
    from Tables_sort_flags[OF this] h
    show "flags (iedges t') = (if len tbl1 = 0 then flags tbl1 else VALID_GIG K)" by simp
  qed
  have h: "\<forall>t c t'. iedges t = tbl1 \<and> decapitate K t c = Inr t' \<longrightarrow>
          flags (iedges t') = VALID_GIG K"
    using decapitate_flags by blast
  from z d a b c u e f g h show ?thesis by (intro conjI)
qed

lemma unset_scenario:
  "unset_bitflag (iedges (scenario example_constants)) (IEDGES_PARENT_OLDER_THAN_CHILD example_constants)
     = Inr (iedges unverified_scenario)"
  by (simp add: unset_bitflag_def setattr_def unverified_scenario_def scenario_def Tables_of_def
      Tables_init_def IEdgeTable_init_def example_constants_def)

lemma sort_unverified_scenario:
  "Tables_sort example_constants unverified_scenario = Inr (scenario_sorted example_constants)"
  by (simp add: Tables_sort_def unverified_scenario_def scenario_def scenario_sorted_def Tables_of_def
      Tables_init_def BaseTable_init_def IEdgeTable_init_def len_def np_take_def py_getitem_def
      NodeTableRow_new_def IEdgeTableRow_new_def lexsort_def upt_conv_Cons append_rows_def
      IEdgeTable_append_row_def add_typed_row_def add_row_with_def Tables_setattr_def)

text \<open>
  C5.  The claim: once a guarantee bit has been cleared with \<^verbatim>\<open>unset_bitflag\<close>, no
  operation that does not re-validate (\<^verbatim>\<open>sort()\<close>, \<^verbatim>\<open>decapitate()\<close>, \<^verbatim>\<open>copy()\<close>) yields
  a table on which the bit is set again.  The code sets it again: \<^verbatim>\<open>copy()\<close>, documented
  as a deep copy, and \<^verbatim>\<open>sort()\<close>, documented as sorting in place, build a new
  \<^verbatim>\<open>IEdgeTable\<close> and carry over the rows only, so the result has the default flag word.
  On the scenario, with the "parent older than child" bit cleared, the sorted aggregate and
  both copies have the bit set, with no check made (here \<^verbatim>\<open>VALID_GIG\<close> holds the bit, as
  the default "fully valid" word does).
\<close>

theorem sort_and_copy_set_cleared_flag:
  "unset_bitflag (iedges (scenario example_constants)) (IEDGES_PARENT_OLDER_THAN_CHILD example_constants)
     = Inr (iedges unverified_scenario)
   \<and> flags (iedges unverified_scenario) AND IEDGES_PARENT_OLDER_THAN_CHILD example_constants = 0
   \<and> Tables_sort example_constants unverified_scenario = Inr (scenario_sorted example_constants)
   \<and> flags (iedges (scenario_sorted example_constants))
        AND IEDGES_PARENT_OLDER_THAN_CHILD example_constants = 2
   \<and> flags (iedges (Tables_copy example_constants unverified_scenario))
        AND IEDGES_PARENT_OLDER_THAN_CHILD example_constants = 2
   \<and> flags (IEdgeTable_copy example_constants (iedges unverified_scenario))
        AND IEDGES_PARENT_OLDER_THAN_CHILD example_constants = 2"
  by (simp add: unset_scenario sort_unverified_scenario Tables_copy_flags IEdgeTable_copy_flags)
     (simp add: unverified_scenario_def scenario_sorted_def Tables_of_def IEdgeTable_init_def
        example_constants_def)

lemma cleared_flag_lifetime_example:
  "flags (iedges unverified_scenario) AND IEDGES_PARENT_OLDER_THAN_CHILD example_constants = 0
   \<and> flags (IEdgeTable_copy example_constants (iedges unverified_scenario))
       = VALID_GIG example_constants
   \<and> flags (iedges (scenario_sorted example_constants))
       = (if len (iedges unverified_scenario) = 0 then flags (iedges unverified_scenario)
          else VALID_GIG example_constants)"
proof -
  note T = cleared_flag_lifetime[OF unset_scenario, of example_constants]
  note c2 = conjunct2
  note 1 = T[THEN conjunct1]
  note 2 = T[THEN c2, THEN c2, THEN c2, THEN c2, THEN c2, THEN c2, THEN conjunct1]
  note 3 = T[THEN c2, THEN c2, THEN c2, THEN c2, THEN c2, THEN c2, THEN c2, THEN c2,
      THEN conjunct1, rule_format, of unverified_scenario "scenario_sorted example_constants",
      OF conjI[OF refl sort_unverified_scenario]]
  from 1 2 3 show ?thesis by (intro conjI)
qed

subsection \<open>Import from a tree sequence\<close>

lemma fold_err_rows:
  assumes "\<And>x tbl xs. x \<in> set rs \<Longrightarrow> data tbl = PyList xs \<Longrightarrow>
      step x tbl = Inr (tbl\<lparr>data := PyList (xs @ [g x])\<rparr>)"
    and "data tbl = PyList xs"
  shows "fold_err step rs tbl = Inr (tbl\<lparr>data := PyList (xs @ map g rs)\<rparr>)"
  using assms
proof (induction rs arbitrary: tbl xs)
  case Nil
  then show ?case by simp
next
  case (Cons r rs)
  have s: "step r tbl = Inr (tbl\<lparr>data := PyList (xs @ [g r])\<rparr>)"
    using Cons.prems by simp
  have "fold_err step rs (tbl\<lparr>data := PyList (xs @ [g r])\<rparr>)
      = Inr (tbl\<lparr>data := PyList (xs @ [g r])\<rparr>\<lparr>data := PyList ((xs @ [g r]) @ map g rs)\<rparr>)"
    by (rule Cons.IH) (use Cons.prems in simp_all)
  with s show ?case by simp
qed

lemma import_node_step:
  "data tbl = PyList xs \<Longrightarrow>
     import_node fa d r tbl = Inr (tbl\<lparr>data := PyList (xs @ [imported_node fa d r])\<rparr>)"
  by (simp add: import_node_def imported_node_def add_typed_row_list)

lemma import_individual_step:
  "data tbl = PyList xs \<Longrightarrow>
     import_individual r tbl = Inr (tbl\<lparr>data := PyList (xs @ [imported_individual r])\<rparr>)"
  by (simp add: import_individual_def imported_individual_def add_typed_row_list)

lemma import_edge_step:
  "integral_edge e \<Longrightarrow> data tbl = PyList xs \<Longrightarrow>
     import_edge K c e tbl = Inr (tbl\<lparr>data := PyList (xs @ [imported_edge K c e])\<rparr>)"
  by (simp add: import_edge_def IEdgeTable_append_tskit_def integral_edge_def imported_edge_def
      add_typed_row_list)

lemma import_edge_fails:
  "\<not> integral_edge e \<Longrightarrow> \<exists>v. import_edge K c e tbl = Inl (NotIntegerError None v)"
  by (auto simp: import_edge_def IEdgeTable_append_tskit_def integral_edge_def)

lemma import_edges_fail:
  "\<not> list_all integral_edge es \<Longrightarrow> data tbl = PyList xs \<Longrightarrow>
     \<exists>v. fold_err (import_edge K c) es tbl = Inl (NotIntegerError None v)"
proof (induction es arbitrary: tbl xs)
  case Nil
  then show ?case by simp
next
  case (Cons e es)
  show ?case
  proof (cases "integral_edge e")
    case False
    from import_edge_fails[OF this, of K c tbl] show ?thesis by auto
  next
    case True
    with Cons.prems(1) have n: "\<not> list_all integral_edge es" by simp
    have "data (tbl\<lparr>data := PyList (xs @ [imported_edge K c e])\<rparr>)
        = PyList (xs @ [imported_edge K c e])" by simp
    from Cons.IH[OF n this] import_edge_step[OF True Cons.prems(2), of K c]
    show ?thesis by simp
  qed
qed

lemma py_getitem_in_bounds:
  "index_in_bounds (length a) i \<Longrightarrow> \<exists>y. py_getitem a i = Inr y"
  by (auto simp: index_in_bounds_def py_getitem_def)

lemma np_take_total:
  "list_all (index_in_bounds (length a)) idx \<Longrightarrow> \<exists>ys. np_take a idx = Inr ys"
proof (induction idx)
  case Nil
  then show ?case by (simp add: np_take_def)
next
  case (Cons i idx)
  then obtain y ys where "py_getitem a i = Inr y" "np_take a idx = Inr ys"
    using py_getitem_in_bounds[of a i] by auto
  then show ?case by (simp add: np_take_def)
qed

lemma Tables_sort_total:
  assumes "\<not> tables_frozen t"
    and "list_all (index_in_bounds (length (items (data (nodes t))))) (map child (items (data (iedges t))))"
  shows "\<exists>t'. Tables_sort K t = Inr t'"
proof -
  from np_take_total[of "map time (items (data (nodes t)))" "map child (items (data (iedges t)))"]
    assms(2)
  obtain cts where
    "np_take (map time (items (data (nodes t)))) (map child (items (data (iedges t)))) = Inr cts"
    by auto
  with assms(1) show ?thesis
    by (simp add: Tables_sort_def Let_def append_rows_new Tables_setattr_def)
qed

lemma sort_keys_empty: "items (data (iedges t)) = [] \<Longrightarrow> sort_keys t = Inr []"
  by (simp add: sort_keys_def np_take_def)

lemma Tables_sort_sorted_keys:
  assumes "Tables_sort K t = Inr t'"
  shows "\<exists>ks. sort_keys t' = Inr ks \<and> sorted ks"
proof (cases "len (iedges t) = 0")
  case True
  with assms have "t' = t" by (simp add: Tables_sort_empty)
  with True sort_keys_empty[of t] show ?thesis by (simp add: len_def)
next
  case False
  from Tables_sort_sorted[OF assms False] show ?thesis .
qed


lemma from_tree_sequence_unsupported:
  "unsupported ts \<Longrightarrow> from_tree_sequence K float_add ts chromosome timedelta = Inl NotImplementedError"
  by (auto simp: unsupported_def from_tree_sequence_def Let_def)

lemma import_nodes:
  "fold_err (import_node fa d) rs (nodes (Tables_init K tu))
     = Inr (BaseTable_init\<lparr>data := PyList (map (imported_node fa d) rs)\<rparr>)"
  using fold_err_rows[of rs "import_node fa d" "imported_node fa d" "BaseTable_init" "[]"]
  by (simp add: import_node_step Tables_init_def BaseTable_init_def)

lemma import_individuals:
  "fold_err import_individual rs (individuals (Tables_init K tu))
     = Inr (BaseTable_init\<lparr>data := PyList (map imported_individual rs)\<rparr>)"
  using fold_err_rows[of rs import_individual imported_individual "BaseTable_init" "[]"]
  by (simp add: import_individual_step Tables_init_def BaseTable_init_def)

lemma import_edges:
  assumes "list_all integral_edge es"
  shows "fold_err (import_edge K c) es (iedges (Tables_init K tu))
     = Inr ((IEdgeTable_init K)\<lparr>data := PyList (map (imported_edge K c) es)\<rparr>)"
proof -
  have "fold_err (import_edge K c) es (IEdgeTable_init K)
      = Inr ((IEdgeTable_init K)\<lparr>data := PyList ([] @ map (imported_edge K c) es)\<rparr>)"
    by (rule fold_err_rows)
       (use assms in \<open>auto simp: list_all_iff import_edge_step IEdgeTable_init_def\<close>)
  then show ?thesis by (simp add: Tables_init_def)
qed

lemma from_tree_sequence_supported:
  assumes "\<not> unsupported ts" and "list_all integral_edge (ts_edges ts)"
  shows "from_tree_sequence K float_add ts chromosome timedelta
     = Tables_sort K (imported_tables K float_add ts chromosome timedelta)"
  using assms(1)
  by (simp add: unsupported_def from_tree_sequence_def Let_def import_nodes
      import_edges[OF assms(2)] import_individuals imported_tables_def)

lemma from_tree_sequence_fractional:
  assumes "\<not> unsupported ts" and "\<not> list_all integral_edge (ts_edges ts)"
  shows "\<exists>v. from_tree_sequence K float_add ts chromosome timedelta = Inl (NotIntegerError None v)"
proof -
  have "data (iedges (Tables_init K (Some (ts_time_units ts)))) = PyList []"
    by (simp add: Tables_init_def IEdgeTable_init_def)
  from import_edges_fail[OF assms(2) this, of K chromosome] obtain v where
    "fold_err (import_edge K chromosome) (ts_edges ts) (iedges (Tables_init K (Some (ts_time_units ts))))
       = Inl (NotIntegerError None v)" by blast
  with assms(1) show ?thesis
    by (simp add: unsupported_def from_tree_sequence_def Let_def import_nodes)
qed

text \<open>
  C9, as the code has it.  For a collection with a migration, mutation or site row, or
  more than one population row, \<^verbatim>\<open>from_tree_sequence\<close> raises \<^verbatim>\<open>NotImplementedError\<close>
  before any row is copied and returns no aggregate.  For a collection with none of these,
  whose edge ends are all integral and whose edge children index the node rows, it
  returns the aggregate that \<^verbatim>\<open>sort()\<close> makes of the imported rows: the node rows are the
  source rows with \<^verbatim>\<open>timedelta\<close> added to each time by the addition of floats (the sum
  as the program computes it, rounded when it rounds), the individuals and the time units
  are copied, the edge rows are the imported edges reordered, and the sort keys read along
  the edge table are in order.  When some edge end is not integral the import raises the
  not-an-integer error instead.
\<close>

theorem from_tree_sequence_import:
  "(unsupported ts \<longrightarrow>
      from_tree_sequence K float_add ts chromosome timedelta = Inl NotImplementedError)
   \<and> (\<not> unsupported ts \<and> list_all integral_edge (ts_edges ts)
       \<and> list_all (\<lambda>e. index_in_bounds (length (ts_nodes ts)) (ts_child e)) (ts_edges ts) \<longrightarrow>
      (\<exists>t'. from_tree_sequence K float_add ts chromosome timedelta = Inr t'
         \<and> Tables_sort K (imported_tables K float_add ts chromosome timedelta) = Inr t'
         \<and> items (data (nodes t')) = map (imported_node float_add timedelta) (ts_nodes ts)
         \<and> map time (items (data (nodes t'))) = map (\<lambda>r. float_add (ts_time r) timedelta) (ts_nodes ts)
         \<and> items (data (individuals t')) = map imported_individual (ts_individuals ts)
         \<and> time_units t' = ts_time_units ts
         \<and> mset (items (data (iedges t'))) = mset (map (imported_edge K chromosome) (ts_edges ts))
         \<and> (\<exists>ks. sort_keys t' = Inr ks \<and> sorted ks)))
   \<and> (\<not> unsupported ts \<and> \<not> list_all integral_edge (ts_edges ts) \<longrightarrow>
      (\<exists>v. from_tree_sequence K float_add ts chromosome timedelta = Inl (NotIntegerError None v)))"
proof (intro conjI impI)
  assume "unsupported ts"
  then show "from_tree_sequence K float_add ts chromosome timedelta = Inl NotImplementedError"
    by (rule from_tree_sequence_unsupported)
next
  assume "\<not> unsupported ts \<and> \<not> list_all integral_edge (ts_edges ts)"
  then show "\<exists>v. from_tree_sequence K float_add ts chromosome timedelta = Inl (NotIntegerError None v)"
    using from_tree_sequence_fractional by blast
next
  let ?T = "imported_tables K float_add ts chromosome timedelta"
  assume h: "\<not> unsupported ts \<and> list_all integral_edge (ts_edges ts)
       \<and> list_all (\<lambda>e. index_in_bounds (length (ts_nodes ts)) (ts_child e)) (ts_edges ts)"
  then have eq: "from_tree_sequence K float_add ts chromosome timedelta = Tables_sort K ?T"
    using from_tree_sequence_supported by blast
  have nf: "\<not> tables_frozen ?T" by (simp add: imported_tables_def Tables_init_def)
  have rows: "items (data (nodes ?T)) = map (imported_node float_add timedelta) (ts_nodes ts)"
    "items (data (iedges ?T)) = map (imported_edge K chromosome) (ts_edges ts)"
    "items (data (individuals ?T)) = map imported_individual (ts_individuals ts)"
    "time_units ?T = ts_time_units ts"
    by (simp_all add: imported_tables_def Tables_init_def)
  have "list_all (index_in_bounds (length (items (data (nodes ?T)))))
      (map child (items (data (iedges ?T))))"
    using h by (simp add: rows list_all_iff imported_edge_def)
  from Tables_sort_total[OF nf this] obtain t' where s: "Tables_sort K ?T = Inr t'" by blast
  from Tables_sort_frame[OF s] have fr: "nodes t' = nodes ?T" "individuals t' = individuals ?T"
    "time_units t' = time_units ?T"
    "mset (items (data (iedges t'))) = mset (items (data (iedges ?T)))"
    by simp_all
  have tm: "map time (map (imported_node float_add timedelta) (ts_nodes ts))
      = map (\<lambda>r. float_add (ts_time r) timedelta) (ts_nodes ts)"
    by (simp add: imported_node_def)
  from Tables_sort_sorted_keys[OF s] eq s fr rows tm
  show "\<exists>t'. from_tree_sequence K float_add ts chromosome timedelta = Inr t'
         \<and> Tables_sort K ?T = Inr t'
         \<and> items (data (nodes t')) = map (imported_node float_add timedelta) (ts_nodes ts)
         \<and> map time (items (data (nodes t'))) = map (\<lambda>r. float_add (ts_time r) timedelta) (ts_nodes ts)
         \<and> items (data (individuals t')) = map imported_individual (ts_individuals ts)
         \<and> time_units t' = ts_time_units ts
         \<and> mset (items (data (iedges t'))) = mset (map (imported_edge K chromosome) (ts_edges ts))
         \<and> (\<exists>ks. sort_keys t' = Inr ks \<and> sorted ks)"
    by (intro exI[of _ t']) simp
qed

text \<open>
  C9 as stated fails for a collection with none of the refused features and an edge
  whose left end is 0.5: the import raises the not-an-integer error and returns nothing.
\<close>

theorem from_tree_sequence_fractional_edge:
  "\<not> unsupported fractional_ts
   \<and> from_tree_sequence example_constants (+) fractional_ts None 0
       = Inl (NotIntegerError None (PFloat (1 / 2)))"
proof -
  have f: "migrations_num_rows fractional_ts = 0" "mutations_num_rows fractional_ts = 0"
    "sites_num_rows fractional_ts = 0" "populations_num_rows fractional_ts = 1"
    "ts_edges fractional_ts = [\<lparr>ts_left = 1 / 2, ts_right = 10, ts_parent = 1, ts_child = 0\<rparr>]"
    by (simp_all add: fractional_ts_def)
  show ?thesis
    by (simp add: unsupported_def from_tree_sequence_def Let_def import_nodes f
        import_edge_def IEdgeTable_append_tskit_def is_integer_def)
qed

lemma import_small_ts:
  "from_tree_sequence example_constants (+) small_ts None 5 = Inr small_imported"
proof -
  have f: "migrations_num_rows small_ts = 0" "mutations_num_rows small_ts = 0"
    "sites_num_rows small_ts = 0" "populations_num_rows small_ts = 1"
    "ts_individuals small_ts = []" "ts_time_units small_ts = ''generations''"
    "ts_edges small_ts = [\<lparr>ts_left = 0, ts_right = 10, ts_parent = 1, ts_child = 0\<rparr>,
                         \<lparr>ts_left = 0, ts_right = 10, ts_parent = 2, ts_child = 1\<rparr>]"
    "ts_nodes small_ts = [\<lparr>ts_flags = 1, ts_time = 0, ts_population = 0, ts_individual = - 1\<rparr>,
                  \<lparr>ts_flags = 0, ts_time = 1, ts_population = 0, ts_individual = - 1\<rparr>,
                  \<lparr>ts_flags = 0, ts_time = 2, ts_population = 0, ts_individual = - 1\<rparr>]"
    by (simp_all add: small_ts_def)
  have i: "list_all integral_edge (ts_edges small_ts)"
    by (simp add: f integral_edge_def is_integer_def)
  have u: "\<not> unsupported small_ts" by (simp add: unsupported_def f)
  have "Tables_sort example_constants (imported_tables example_constants (+) small_ts None 5)
      = Inr small_imported"
    by (simp add: imported_tables_def f imported_node_def imported_edge_def imported_individual_def
        small_imported_def Tables_of_def Tables_init_def BaseTable_init_def IEdgeTable_init_def
        Tables_sort_def len_def np_take_def py_getitem_def lexsort_def upt_conv_Cons
        append_rows_def IEdgeTable_append_row_def add_typed_row_def add_row_with_def
        Tables_setattr_def IEdgeTableRow_new_def example_constants_def)
  with from_tree_sequence_supported[OF u i, of example_constants "(+)" None 5] show ?thesis
    by simp
qed

theorem from_tree_sequence_import_witness:
  "from_tree_sequence example_constants (+) (small_ts\<lparr>migrations_num_rows := 1\<rparr>) None 5
     = Inl NotImplementedError
   \<and> from_tree_sequence example_constants (+) small_ts None 5 = Inr small_imported
   \<and> map time (items (data (nodes small_imported))) = [5, 6, 7]
   \<and> map child (items (data (iedges small_imported))) = [1, 0]
   \<and> mset (items (data (iedges small_imported)))
       = mset (map (imported_edge example_constants None) (ts_edges small_ts))
   \<and> (\<exists>ks. sort_keys small_imported = Inr ks \<and> sorted ks)
   \<and> (\<exists>v. from_tree_sequence example_constants (+) fractional_ts None 5
             = Inl (NotIntegerError None v))"
proof -
  note T1 = from_tree_sequence_import[of "small_ts\<lparr>migrations_num_rows := 1\<rparr>"
      example_constants "(+)" None 5, THEN conjunct1]
  note T2 = from_tree_sequence_import[of small_ts example_constants "(+)" None 5,
      THEN conjunct2, THEN conjunct1]
  note T3 = from_tree_sequence_import[of fractional_ts example_constants "(+)" None 5,
      THEN conjunct2, THEN conjunct2]
  have h1: "unsupported (small_ts\<lparr>migrations_num_rows := 1\<rparr>)"
    by (simp add: unsupported_def)
  have h2: "\<not> unsupported small_ts \<and> list_all integral_edge (ts_edges small_ts)
       \<and> list_all (\<lambda>e. index_in_bounds (length (ts_nodes small_ts)) (ts_child e)) (ts_edges small_ts)"
    by (simp add: unsupported_def small_ts_def integral_edge_def is_integer_def index_in_bounds_def)
  have h3: "\<not> unsupported fractional_ts \<and> \<not> list_all integral_edge (ts_edges fractional_ts)"
    by (simp add: unsupported_def fractional_ts_def integral_edge_def is_integer_def)
  from mp[OF T2 h2] obtain t' where
    r: "from_tree_sequence example_constants (+) small_ts None 5 = Inr t'"
    and tm: "map time (items (data (nodes t'))) = map (\<lambda>r. ts_time r + 5) (ts_nodes small_ts)"
    and ms: "mset (items (data (iedges t')))
       = mset (map (imported_edge example_constants None) (ts_edges small_ts))"
    and ks: "\<exists>ks. sort_keys t' = Inr ks \<and> sorted ks"
    by blast
  from r import_small_ts have t': "t' = small_imported" by simp
  have 3: "map time (items (data (nodes small_imported))) = [5, 6, 7]"
    using tm unfolding t' by (simp add: small_ts_def)
  have 4: "map child (items (data (iedges small_imported))) = [1, 0]"
    by (simp add: small_imported_def Tables_of_def IEdgeTableRow_new_def)
  from mp[OF T1 h1] import_small_ts 3 4 ms[unfolded t'] ks[unfolded t'] mp[OF T3 h3]
  show ?thesis by (intro conjI)
qed

end
